theory Spec2Isabelle
  imports Main "HOL-Library.AList"
begin

section \<open>Python values, errors and loops\<close>

text \<open>
  The embedding follows \<^verbatim>\<open>ppcls/arch/backbone/legendary_models/hrnet.py\<close>.
  Python integers are \<^typ>\<open>int\<close>; positions produced by \<^verbatim>\<open>range\<close> and
  \<^verbatim>\<open>enumerate\<close> are \<^typ>\<open>nat\<close>. Every exception the Python code of the file can
  raise by itself is a value of \<open>py_error\<close>; a computation that may raise returns
  \<open>py_error + 'a\<close> with \<open>Inl\<close> for the exception. Exceptions raised inside the
  Paddle framework (shape mismatches, invalid layer arguments) are not part of the file
  and are not modelled, with one exception: the assertion of \<^verbatim>\<open>nn.Sequential\<close> that
  \<^verbatim>\<open>Layer1\<close> runs into on every call. Calling a layer is running its \<^verbatim>\<open>forward\<close>: the base class
  \<^verbatim>\<open>TheseusLayer\<close> is not in the file and is taken to add nothing to a call. The
  parameter \<^verbatim>\<open>res_dict\<close> of every \<^verbatim>\<open>forward\<close> is never read and is left out.
\<close>

datatype py_error = IndexError | KeyError | TypeError | ZeroDivisionError | ValueError
  | AttributeError | AssertionError

definition py_bind :: "py_error + 'a \<Rightarrow> ('a \<Rightarrow> py_error + 'b) \<Rightarrow> py_error + 'b" where
  "py_bind m f = (case m of Inl e \<Rightarrow> Inl e | Inr v \<Rightarrow> f v)"

text \<open>\<^verbatim>\<open>xs[i]\<close> for a position \<open>i \<ge> 0\<close>, and \<^verbatim>\<open>xs[-1]\<close>.\<close>

definition getitem :: "'a list \<Rightarrow> nat \<Rightarrow> py_error + 'a" where
  "getitem xs i = (if i < length xs then Inr (xs ! i) else Inl IndexError)"

definition getitem_last :: "'a list \<Rightarrow> py_error + 'a" where
  "getitem_last xs = (if xs = [] then Inl IndexError else Inr (last xs))"

text \<open>\<^verbatim>\<open>for x in xs: body\<close>, threading the variables the body assigns.\<close>

primrec for_loop :: "'a list \<Rightarrow> ('a \<Rightarrow> 's \<Rightarrow> py_error + 's) \<Rightarrow> 's \<Rightarrow> py_error + 's" where
  "for_loop [] body s = Inr s"
| "for_loop (x # xs) body s = py_bind (body x s) (for_loop xs body)"

text \<open>\<^verbatim>\<open>range(n)\<close> for a Python integer \<open>n\<close>: empty when \<open>n \<le> 0\<close>.\<close>

definition py_range :: "int \<Rightarrow> nat list" where
  "py_range n = [0..<nat n]"

text \<open>\<^verbatim>\<open>str(n)\<close> for \<open>n \<ge> 0\<close>, and \<^verbatim>\<open>"{}".format(name)\<close> for a name that may be
  \<^verbatim>\<open>None\<close>.\<close>

definition digit :: "nat \<Rightarrow> char" where
  "digit d = (''0123456789'' ! d)"

function str :: "nat \<Rightarrow> string" where
  "str n = (if n < 10 then [digit n] else str (n div 10) @ [digit (n mod 10)])"
  by pat_completeness auto
termination
  by (relation "measure (\<lambda>n. n)") auto

declare str.simps [simp del]

definition format_name :: "string option \<Rightarrow> string" where
  "format_name name = (case name of None \<Rightarrow> ''None'' | Some s \<Rightarrow> s)"

text \<open>\<^verbatim>\<open>name + suffix\<close> and \<^verbatim>\<open>prefix + name\<close>: \<^verbatim>\<open>TypeError\<close> when the name is
  \<^verbatim>\<open>None\<close>.\<close>

definition name_add :: "string option \<Rightarrow> string \<Rightarrow> py_error + string" where
  "name_add name suffix = (case name of None \<Rightarrow> Inl TypeError | Some s \<Rightarrow> Inr (s @ suffix))"

definition add_name :: "string \<Rightarrow> string option \<Rightarrow> py_error + string" where
  "add_name prefix name = (case name of None \<Rightarrow> Inl TypeError | Some s \<Rightarrow> Inr (prefix @ s))"

section \<open>Layers of the framework and the tensor graph\<close>

text \<open>
  The Paddle layers the file instantiates are records of their constructor arguments.
  A forward pass builds a term of type \<open>tensor\<close>: the graph of framework operations
  applied to the inputs, in the order and with the arguments the code gives them.
  \<open>Input k c\<close> is the \<open>k\<close>-th tensor handed to the pass, with \<open>c\<close> channels.
\<close>

record Conv2D =
  conv_in_channels :: int
  conv_out_channels :: int
  kernel_size :: int
  conv_stride :: int
  padding :: int
  conv_groups :: int
  conv_bias_attr :: bool

record BatchNorm =
  bn_num_channels :: int
  bn_act :: "string option"

text \<open>\<open>Uniform_stdv n\<close> stands for \<^verbatim>\<open>Uniform(-stdv, stdv)\<close> with
  \<^verbatim>\<open>stdv = 1.0 / math.sqrt(n * 1.0)\<close>; the floating-point bound itself is not computed.\<close>

datatype initializer = Uniform_stdv int

record ParamAttr =
  attr_initializer :: "initializer option"
  attr_name :: string

record Linear =
  in_features :: int
  out_features :: int
  weight_attr :: ParamAttr
  bias_attr :: ParamAttr

datatype tensor =
    Input nat int
  | Conv2D_call Conv2D tensor
  | BatchNorm_call BatchNorm tensor
  | Linear_call Linear tensor
  | AdaptiveAvgPool2D_call int tensor
  | paddle_add tensor tensor
  | paddle_multiply tensor tensor
  | paddle_squeeze tensor "int list"
  | paddle_unsqueeze tensor "int list"
  | F_relu tensor
  | F_sigmoid tensor
  | F_upsample tensor int string

section \<open>ConvBNLayer\<close>

record ConvBNLayer =
  ConvBNLayer_conv :: Conv2D
  ConvBNLayer_batch_norm :: BatchNorm

definition ConvBNLayer_init ::
  "int \<Rightarrow> int \<Rightarrow> int \<Rightarrow> int \<Rightarrow> int \<Rightarrow> string option \<Rightarrow> ConvBNLayer" where
  "ConvBNLayer_init num_channels num_filters filter_size stride groups act =
     \<lparr> ConvBNLayer_conv =
         \<lparr> conv_in_channels = num_channels,
           conv_out_channels = num_filters,
           kernel_size = filter_size,
           conv_stride = stride,
           padding = (filter_size - 1) div 2,
           conv_groups = groups,
           conv_bias_attr = False \<rparr>,
       ConvBNLayer_batch_norm = \<lparr> bn_num_channels = num_filters, bn_act = act \<rparr> \<rparr>"

definition ConvBNLayer_forward :: "ConvBNLayer \<Rightarrow> tensor \<Rightarrow> tensor" where
  "ConvBNLayer_forward self x =
     (let y = Conv2D_call (ConvBNLayer_conv self) x;
          y = BatchNorm_call (ConvBNLayer_batch_norm self) y
      in y)"

section \<open>FuseLayers\<close>

text \<open>
  \<^verbatim>\<open>add_sublayer(name, layer)\<close> registers the layer with the framework and returns it;
  the model keeps the returned layer. Formatting the registration name cannot raise.
\<close>

record FuseLayers =
  actual_ch :: nat
  fuse_in_channels :: "int list"
  residual_func_list :: "ConvBNLayer list"

text \<open>The body of \<^verbatim>\<open>for k in range(i - j)\<close> in the constructor; it runs only where
  \<open>j < i\<close>. The loop assigns \<^verbatim>\<open>pre_num_filters\<close> and appends to
  \<^verbatim>\<open>residual_func_list\<close>.\<close>

definition FuseLayers_init_k ::
  "int list \<Rightarrow> nat \<Rightarrow> nat \<Rightarrow> nat \<Rightarrow> int \<times> ConvBNLayer list
     \<Rightarrow> py_error + int \<times> ConvBNLayer list" where
  "FuseLayers_init_k out_channels i j k = (\<lambda>(pre_num_filters, lst).
     if k = i - j - 1 then
       py_bind (getitem out_channels i) (\<lambda>oi.
         Inr (oi, lst @ [ConvBNLayer_init pre_num_filters oi 3 2 1 None]))
     else
       py_bind (getitem out_channels j) (\<lambda>oj.
         Inr (oj, lst @ [ConvBNLayer_init pre_num_filters oj 3 2 1 (Some ''relu'')])))"

text \<open>The body of \<^verbatim>\<open>for j in range(len(in_channels))\<close> in the constructor.\<close>

definition FuseLayers_init_j ::
  "int list \<Rightarrow> int list \<Rightarrow> nat \<Rightarrow> nat \<Rightarrow> ConvBNLayer list \<Rightarrow> py_error + ConvBNLayer list" where
  "FuseLayers_init_j in_channels out_channels i j lst =
     (if j > i then
        py_bind (getitem in_channels j) (\<lambda>cj.
        py_bind (getitem out_channels i) (\<lambda>oi.
          Inr (lst @ [ConvBNLayer_init cj oi 1 1 1 None])))
      else if j < i then
        py_bind (getitem in_channels j) (\<lambda>pre_num_filters.
        py_bind (for_loop [0..<i - j] (FuseLayers_init_k out_channels i j) (pre_num_filters, lst))
          (\<lambda>(pre_num_filters, lst). Inr lst))
      else Inr lst)"

definition FuseLayers_init ::
  "int list \<Rightarrow> int list \<Rightarrow> bool \<Rightarrow> string option \<Rightarrow> py_error + FuseLayers" where
  "FuseLayers_init in_channels out_channels multi_scale_output name =
     (let actual = (if multi_scale_output then length in_channels else 1) in
      py_bind (for_loop [0..<actual]
                 (\<lambda>i. for_loop [0..<length in_channels] (FuseLayers_init_j in_channels out_channels i))
                 [])
        (\<lambda>lst. Inr \<lparr> actual_ch = actual, fuse_in_channels = in_channels,
                      residual_func_list = lst \<rparr>))"

text \<open>
  The forward pass. Besides the variables of the source (\<^verbatim>\<open>residual\<close>, \<^verbatim>\<open>y\<close>,
  \<^verbatim>\<open>residual_func_idx\<close>, \<^verbatim>\<open>outs\<close>) the loops carry \<open>reads\<close>: the positions at
  which \<^verbatim>\<open>residual_func_list\<close> has been subscripted so far, in order. It is a
  record of the run and influences nothing.
\<close>

definition FuseLayers_forward_k ::
  "FuseLayers \<Rightarrow> nat \<Rightarrow> tensor \<times> nat \<times> nat list \<Rightarrow> py_error + tensor \<times> nat \<times> nat list" where
  "FuseLayers_forward_k self k = (\<lambda>(y, residual_func_idx, reads).
     py_bind (getitem (residual_func_list self) residual_func_idx) (\<lambda>f.
       Inr (ConvBNLayer_forward f y, residual_func_idx + 1, reads @ [residual_func_idx])))"

definition FuseLayers_forward_j ::
  "FuseLayers \<Rightarrow> tensor list \<Rightarrow> nat \<Rightarrow> nat \<Rightarrow> tensor \<times> nat \<times> nat list
     \<Rightarrow> py_error + tensor \<times> nat \<times> nat list" where
  "FuseLayers_forward_j self input i j = (\<lambda>(residual, residual_func_idx, reads).
     if j > i then
       py_bind (getitem (residual_func_list self) residual_func_idx) (\<lambda>f.
       py_bind (getitem input j) (\<lambda>xj.
         let y = ConvBNLayer_forward f xj;
             y = F_upsample y (2 ^ (j - i)) ''nearest''
         in Inr (paddle_add residual y, residual_func_idx + 1, reads @ [residual_func_idx])))
     else if j < i then
       py_bind (getitem input j) (\<lambda>y.
       py_bind (for_loop [0..<i - j] (FuseLayers_forward_k self) (y, residual_func_idx, reads))
         (\<lambda>(y, residual_func_idx, reads).
            Inr (paddle_add residual y, residual_func_idx, reads)))
     else Inr (residual, residual_func_idx, reads))"

definition FuseLayers_forward_i ::
  "FuseLayers \<Rightarrow> tensor list \<Rightarrow> nat \<Rightarrow> tensor list \<times> nat \<times> nat list
     \<Rightarrow> py_error + tensor list \<times> nat \<times> nat list" where
  "FuseLayers_forward_i self input i = (\<lambda>(outs, residual_func_idx, reads).
     py_bind (getitem input i) (\<lambda>residual.
     py_bind (for_loop [0..<length (fuse_in_channels self)] (FuseLayers_forward_j self input i)
                (residual, residual_func_idx, reads))
       (\<lambda>(residual, residual_func_idx, reads).
          Inr (outs @ [F_relu residual], residual_func_idx, reads))))"

text \<open>The run of \<^verbatim>\<open>forward\<close>: the returned list, the final
  \<^verbatim>\<open>residual_func_idx\<close> and the positions read.\<close>

definition FuseLayers_forward_run ::
  "FuseLayers \<Rightarrow> tensor list \<Rightarrow> py_error + tensor list \<times> nat \<times> nat list" where
  "FuseLayers_forward_run self input =
     for_loop [0..<actual_ch self] (FuseLayers_forward_i self input) ([], 0, [])"

definition FuseLayers_forward :: "FuseLayers \<Rightarrow> tensor list \<Rightarrow> py_error + tensor list" where
  "FuseLayers_forward self input =
     py_bind (FuseLayers_forward_run self input) (\<lambda>(outs, residual_func_idx, reads). Inr outs)"

section \<open>TransitionLayer\<close>

record TransitionLayer =
  conv_bn_func_list :: "ConvBNLayer option list"

text \<open>The body of \<^verbatim>\<open>for i in range(num_out)\<close>: \<^verbatim>\<open>residual\<close> stays \<^verbatim>\<open>None\<close> for a
  kept branch of equal width and is appended in every case.\<close>

definition TransitionLayer_init_i ::
  "int list \<Rightarrow> int list \<Rightarrow> nat \<Rightarrow> ConvBNLayer option list
     \<Rightarrow> py_error + ConvBNLayer option list" where
  "TransitionLayer_init_i in_channels out_channels i lst =
     (if i < length in_channels then
        py_bind (getitem in_channels i) (\<lambda>ci.
        py_bind (getitem out_channels i) (\<lambda>oi.
          if ci \<noteq> oi then Inr (lst @ [Some (ConvBNLayer_init ci oi 3 1 1 (Some ''relu''))])
          else Inr (lst @ [None])))
      else
        py_bind (getitem_last in_channels) (\<lambda>cl.
        py_bind (getitem out_channels i) (\<lambda>oi.
          Inr (lst @ [Some (ConvBNLayer_init cl oi 3 2 1 (Some ''relu''))]))))"

definition TransitionLayer_init ::
  "int list \<Rightarrow> int list \<Rightarrow> string option \<Rightarrow> py_error + TransitionLayer" where
  "TransitionLayer_init in_channels out_channels name =
     py_bind (for_loop [0..<length out_channels] (TransitionLayer_init_i in_channels out_channels) [])
       (\<lambda>lst. Inr \<lparr> conv_bn_func_list = lst \<rparr>)"

text \<open>The body of \<^verbatim>\<open>for idx, conv_bn_func in enumerate(self.conv_bn_func_list)\<close>.\<close>

definition TransitionLayer_forward_step ::
  "tensor list \<Rightarrow> nat \<times> ConvBNLayer option \<Rightarrow> tensor list \<Rightarrow> py_error + tensor list" where
  "TransitionLayer_forward_step x = (\<lambda>(idx, conv_bn_func) outs.
     case conv_bn_func of
       None \<Rightarrow> py_bind (getitem x idx) (\<lambda>xi. Inr (outs @ [xi]))
     | Some f \<Rightarrow>
         if idx < length x then
           py_bind (getitem x idx) (\<lambda>xi. Inr (outs @ [ConvBNLayer_forward f xi]))
         else
           py_bind (getitem_last x) (\<lambda>xl. Inr (outs @ [ConvBNLayer_forward f xl])))"

definition TransitionLayer_forward :: "TransitionLayer \<Rightarrow> tensor list \<Rightarrow> py_error + tensor list" where
  "TransitionLayer_forward self x =
     for_loop (enumerate 0 (conv_bn_func_list self)) (TransitionLayer_forward_step x) []"

section \<open>SELayer\<close>

text \<open>
  \<^verbatim>\<open>int(a / b)\<close>: true division, then truncation towards zero. The quotient is taken
  exactly; Python rounds it to a double first, which changes nothing while the operands are
  below \<open>2 ^ 53\<close> in absolute value.
\<close>

definition int_truediv :: "int \<Rightarrow> int \<Rightarrow> py_error + int" where
  "int_truediv a b =
     (if b = 0 then Inl ZeroDivisionError else Inr (sgn a * sgn b * (\<bar>a\<bar> div \<bar>b\<bar>)))"

text \<open>\<^verbatim>\<open>1.0 / math.sqrt(n * 1.0)\<close>: \<^verbatim>\<open>math.sqrt\<close> raises \<^verbatim>\<open>ValueError\<close> on a negative
  argument, and the division raises \<^verbatim>\<open>ZeroDivisionError\<close> when the root is zero.\<close>

definition stdv_of :: "int \<Rightarrow> py_error + initializer" where
  "stdv_of n =
     (if n < 0 then Inl ValueError else if n = 0 then Inl ZeroDivisionError
      else Inr (Uniform_stdv n))"

record SELayer =
  pool2d_gap :: int
  se_num_channels :: int
  se_squeeze :: Linear
  se_excitation :: Linear

definition SELayer_init :: "int \<Rightarrow> int \<Rightarrow> int \<Rightarrow> string option \<Rightarrow> py_error + SELayer" where
  "SELayer_init num_channels num_filters reduction_ratio name =
     py_bind (int_truediv num_channels reduction_ratio) (\<lambda>med_ch.
     py_bind (stdv_of num_channels) (\<lambda>stdv.
     py_bind (name_add name ''_sqz_weights'') (\<lambda>sqz_weights.
     py_bind (name_add name ''_sqz_offset'') (\<lambda>sqz_offset.
     let squeeze = \<lparr> in_features = num_channels, out_features = med_ch,
                      weight_attr = \<lparr> attr_initializer = Some stdv, attr_name = sqz_weights \<rparr>,
                      bias_attr = \<lparr> attr_initializer = None, attr_name = sqz_offset \<rparr> \<rparr> in
     py_bind (stdv_of med_ch) (\<lambda>stdv.
     py_bind (name_add name ''_exc_weights'') (\<lambda>exc_weights.
     py_bind (name_add name ''_exc_offset'') (\<lambda>exc_offset.
     let excitation = \<lparr> in_features = med_ch, out_features = num_filters,
                         weight_attr = \<lparr> attr_initializer = Some stdv, attr_name = exc_weights \<rparr>,
                         bias_attr = \<lparr> attr_initializer = None, attr_name = exc_offset \<rparr> \<rparr> in
     Inr \<lparr> pool2d_gap = 1, se_num_channels = num_channels,
           se_squeeze = squeeze, se_excitation = excitation \<rparr>)))))))"

definition SELayer_forward :: "SELayer \<Rightarrow> tensor \<Rightarrow> tensor" where
  "SELayer_forward self input =
     (let pool = AdaptiveAvgPool2D_call (pool2d_gap self) input;
          pool = paddle_squeeze pool [2, 3];
          squeeze = Linear_call (se_squeeze self) pool;
          squeeze = F_relu squeeze;
          excitation = Linear_call (se_excitation self) squeeze;
          excitation = F_sigmoid excitation;
          excitation = paddle_unsqueeze excitation [2, 3];
          out = paddle_multiply input excitation
      in out)"

section \<open>BottleneckBlock and BasicBlock\<close>

text \<open>The attributes \<^verbatim>\<open>conv_down\<close> and \<^verbatim>\<open>se\<close> exist only when the constructor
  created them: \<open>None\<close> is the missing attribute, and reading it raises
  \<^verbatim>\<open>AttributeError\<close>.\<close>

record BottleneckBlock =
  bottleneck_has_se :: bool
  bottleneck_downsample :: bool
  bottleneck_conv1 :: ConvBNLayer
  bottleneck_conv2 :: ConvBNLayer
  bottleneck_conv3 :: ConvBNLayer
  bottleneck_conv_down :: "ConvBNLayer option"
  bottleneck_se :: "SELayer option"

definition BottleneckBlock_init ::
  "int \<Rightarrow> int \<Rightarrow> bool \<Rightarrow> int \<Rightarrow> bool \<Rightarrow> string option \<Rightarrow> py_error + BottleneckBlock" where
  "BottleneckBlock_init num_channels num_filters has_se stride downsample name =
     (let conv1 = ConvBNLayer_init num_channels num_filters 1 1 1 (Some ''relu'');
          conv2 = ConvBNLayer_init num_filters num_filters 3 stride 1 (Some ''relu'');
          conv3 = ConvBNLayer_init num_filters (num_filters * 4) 1 1 1 None;
          conv_down = (if downsample
                       then Some (ConvBNLayer_init num_channels (num_filters * 4) 1 1 1 None)
                       else None) in
      py_bind (if has_se then
                 py_bind (add_name ''fc'' name) (\<lambda>fc_name.
                 py_bind (SELayer_init (num_filters * 4) (num_filters * 4) 16 (Some fc_name))
                   (\<lambda>se. Inr (Some se)))
               else Inr None)
        (\<lambda>se. Inr \<lparr> bottleneck_has_se = has_se, bottleneck_downsample = downsample,
                     bottleneck_conv1 = conv1, bottleneck_conv2 = conv2,
                     bottleneck_conv3 = conv3, bottleneck_conv_down = conv_down,
                     bottleneck_se = se \<rparr>))"

definition BottleneckBlock_forward :: "BottleneckBlock \<Rightarrow> tensor \<Rightarrow> py_error + tensor" where
  "BottleneckBlock_forward self x =
     (let residual = x;
          conv1 = ConvBNLayer_forward (bottleneck_conv1 self) x;
          conv2 = ConvBNLayer_forward (bottleneck_conv2 self) conv1;
          conv3 = ConvBNLayer_forward (bottleneck_conv3 self) conv2 in
      py_bind (if bottleneck_downsample self then
                 (case bottleneck_conv_down self of
                    None \<Rightarrow> Inl AttributeError
                  | Some conv_down \<Rightarrow> Inr (ConvBNLayer_forward conv_down x))
               else Inr residual) (\<lambda>residual.
      py_bind (if bottleneck_has_se self then
                 (case bottleneck_se self of
                    None \<Rightarrow> Inl AttributeError
                  | Some se \<Rightarrow> Inr (SELayer_forward se conv3))
               else Inr conv3) (\<lambda>conv3.
      let y = paddle_add residual conv3;
          y = F_relu y
      in Inr y)))"

record BasicBlock =
  basic_has_se :: bool
  basic_downsample :: bool
  basic_conv1 :: ConvBNLayer
  basic_conv2 :: ConvBNLayer
  basic_conv_down :: "ConvBNLayer option"
  basic_se :: "SELayer option"

definition BasicBlock_init ::
  "int \<Rightarrow> int \<Rightarrow> int \<Rightarrow> bool \<Rightarrow> bool \<Rightarrow> string option \<Rightarrow> py_error + BasicBlock" where
  "BasicBlock_init num_channels num_filters stride has_se downsample name =
     (let conv1 = ConvBNLayer_init num_channels num_filters 3 stride 1 (Some ''relu'');
          conv2 = ConvBNLayer_init num_filters num_filters 3 1 1 None;
          conv_down = (if downsample
                       then Some (ConvBNLayer_init num_channels (num_filters * 4) 1 1 1 (Some ''relu''))
                       else None) in
      py_bind (if has_se then
                 py_bind (add_name ''fc'' name) (\<lambda>fc_name.
                 py_bind (SELayer_init num_filters num_filters 16 (Some fc_name))
                   (\<lambda>se. Inr (Some se)))
               else Inr None)
        (\<lambda>se. Inr \<lparr> basic_has_se = has_se, basic_downsample = downsample,
                     basic_conv1 = conv1, basic_conv2 = conv2,
                     basic_conv_down = conv_down, basic_se = se \<rparr>))"

definition BasicBlock_forward :: "BasicBlock \<Rightarrow> tensor \<Rightarrow> py_error + tensor" where
  "BasicBlock_forward self input =
     (let residual = input;
          conv1 = ConvBNLayer_forward (basic_conv1 self) input;
          conv2 = ConvBNLayer_forward (basic_conv2 self) conv1 in
      py_bind (if basic_downsample self then
                 (case basic_conv_down self of
                    None \<Rightarrow> Inl AttributeError
                  | Some conv_down \<Rightarrow> Inr (ConvBNLayer_forward conv_down input))
               else Inr residual) (\<lambda>residual.
      py_bind (if basic_has_se self then
                 (case basic_se self of
                    None \<Rightarrow> Inl AttributeError
                  | Some se \<Rightarrow> Inr (SELayer_forward se conv2))
               else Inr conv2) (\<lambda>conv2.
      let y = paddle_add residual conv2;
          y = F_relu y
      in Inr y)))"

section \<open>Layer1\<close>

text \<open>
  The constructor builds a dictionary from the four registration names to four
  \<^verbatim>\<open>BottleneckBlock\<close>s and hands it to \<^verbatim>\<open>nn.Sequential\<close> unpacked with \<^verbatim>\<open>*\<close>.
  Unpacking a dictionary yields its keys, so the arguments of \<^verbatim>\<open>nn.Sequential\<close> are the
  four names, in insertion order, and not the four blocks. The dictionary is an association
  list in insertion order; the keys of the four turns differ.

  \<^verbatim>\<open>nn.Sequential\<close> belongs to the framework: it registers each positional argument with
  \<^verbatim>\<open>add_sublayer\<close>, which asserts that the argument is a layer. A name is a string, so a
  call with names raises \<^verbatim>\<open>AssertionError\<close>; a call without arguments gives the empty
  sequence of layers. \<open>nn_Sequential\<close> is this behaviour for arguments that are names.

  \<^verbatim>\<open>Layer1.forward\<close>, \<^verbatim>\<open>LastClsOut.forward\<close> and \<^verbatim>\<open>HRNet.forward\<close> are not modelled: no
  \<^verbatim>\<open>Layer1\<close> and no \<^verbatim>\<open>HRNet\<close> is ever built for them to run on.
\<close>

definition nn_Sequential :: "string list \<Rightarrow> py_error + BottleneckBlock list" where
  "nn_Sequential layers = (if layers = [] then Inr [] else Inl AssertionError)"

record Layer1 =
  bottleneck_block_list :: "BottleneckBlock list"

definition Layer1_init_i ::
  "int \<Rightarrow> bool \<Rightarrow> string option \<Rightarrow> nat \<Rightarrow> (string \<times> BottleneckBlock) list
     \<Rightarrow> py_error + (string \<times> BottleneckBlock) list" where
  "Layer1_init_i num_channels has_se name i d =
     (let key = ''bb_'' @ format_name name @ ''_'' @ str (i + 1) in
      py_bind (name_add name (''_'' @ str (i + 1))) (\<lambda>block_name.
      py_bind (BottleneckBlock_init (if i = 0 then num_channels else 256) 64 has_se 1
                 (if i = 0 then True else False) (Some block_name)) (\<lambda>block.
        Inr (AList.update key block d))))"

definition Layer1_init :: "int \<Rightarrow> bool \<Rightarrow> string option \<Rightarrow> py_error + Layer1" where
  "Layer1_init num_channels has_se name =
     py_bind (for_loop (py_range 4) (Layer1_init_i num_channels has_se name) []) (\<lambda>d.
     py_bind (nn_Sequential (map fst d)) (\<lambda>layers.
       Inr \<lparr> bottleneck_block_list = layers \<rparr>))"

section \<open>Branches\<close>

record Branches =
  basic_block_list :: "BasicBlock list list"

text \<open>The body of \<^verbatim>\<open>for j in range(block_num)\<close>: \<^verbatim>\<open>stride\<close> and \<^verbatim>\<open>downsample\<close>
  are not passed, so \<^verbatim>\<open>BasicBlock\<close> takes its defaults \<open>1\<close> and \<^verbatim>\<open>False\<close>.\<close>

definition Branches_init_j ::
  "int list \<Rightarrow> int list \<Rightarrow> bool \<Rightarrow> string option \<Rightarrow> nat \<Rightarrow> nat \<Rightarrow> BasicBlock list list
     \<Rightarrow> py_error + BasicBlock list list" where
  "Branches_init_j in_channels out_channels has_se name i j lst =
     py_bind (if j = 0 then getitem in_channels i else getitem out_channels i) (\<lambda>in_ch.
     py_bind (getitem out_channels i) (\<lambda>oi.
     py_bind (name_add name (''_branch_layer_'' @ str (i + 1) @ ''_'' @ str (j + 1))) (\<lambda>block_name.
     py_bind (BasicBlock_init in_ch oi 1 has_se False (Some block_name)) (\<lambda>basic_block_func.
     py_bind (getitem lst i) (\<lambda>row.
       Inr (lst[i := row @ [basic_block_func]]))))))"

definition Branches_init_i ::
  "int \<Rightarrow> int list \<Rightarrow> int list \<Rightarrow> bool \<Rightarrow> string option \<Rightarrow> nat \<Rightarrow> BasicBlock list list
     \<Rightarrow> py_error + BasicBlock list list" where
  "Branches_init_i block_num in_channels out_channels has_se name i lst =
     for_loop (py_range block_num) (Branches_init_j in_channels out_channels has_se name i) (lst @ [[]])"

definition Branches_init ::
  "int \<Rightarrow> int list \<Rightarrow> int list \<Rightarrow> bool \<Rightarrow> string option \<Rightarrow> py_error + Branches" where
  "Branches_init block_num in_channels out_channels has_se name =
     py_bind (for_loop [0..<length out_channels]
                (Branches_init_i block_num in_channels out_channels has_se name) [])
       (\<lambda>lst. Inr \<lparr> basic_block_list = lst \<rparr>)"



section \<open>HighResolutionModule and Stage\<close>

record HighResolutionModule =
  branches_func :: Branches
  fuse_func :: FuseLayers

definition HighResolutionModule_init ::
  "int list \<Rightarrow> int list \<Rightarrow> bool \<Rightarrow> bool \<Rightarrow> string option \<Rightarrow> py_error + HighResolutionModule" where
  "HighResolutionModule_init num_channels num_filters has_se multi_scale_output name =
     py_bind (Branches_init 4 num_channels num_filters has_se name) (\<lambda>branches.
     py_bind (FuseLayers_init num_filters num_filters multi_scale_output name) (\<lambda>fuse.
       Inr \<lparr> branches_func = branches, fuse_func = fuse \<rparr>))"


record Stage =
  stage_num_modules :: int
  stage_func_list :: "HighResolutionModule list"

definition Stage_init_i ::
  "int list \<Rightarrow> int \<Rightarrow> int list \<Rightarrow> bool \<Rightarrow> bool \<Rightarrow> string option \<Rightarrow> nat
     \<Rightarrow> HighResolutionModule list \<Rightarrow> py_error + HighResolutionModule list" where
  "Stage_init_i num_channels num_modules num_filters has_se multi_scale_output name i lst =
     (if int i = num_modules - 1 \<and> \<not> multi_scale_output then
        py_bind (name_add name (''_'' @ str (i + 1))) (\<lambda>module_name.
        py_bind (HighResolutionModule_init num_channels num_filters has_se False (Some module_name))
          (\<lambda>stage_func. Inr (lst @ [stage_func])))
      else
        py_bind (name_add name (''_'' @ str (i + 1))) (\<lambda>module_name.
        py_bind (HighResolutionModule_init num_channels num_filters has_se True (Some module_name))
          (\<lambda>stage_func. Inr (lst @ [stage_func]))))"

definition Stage_init ::
  "int list \<Rightarrow> int \<Rightarrow> int list \<Rightarrow> bool \<Rightarrow> bool \<Rightarrow> string option \<Rightarrow> py_error + Stage" where
  "Stage_init num_channels num_modules num_filters has_se multi_scale_output name =
     py_bind (for_loop (py_range num_modules)
                (Stage_init_i num_channels num_modules num_filters has_se multi_scale_output name) [])
       (\<lambda>lst. Inr \<lparr> stage_num_modules = num_modules, stage_func_list = lst \<rparr>)"


section \<open>LastClsOut\<close>

record LastClsOut =
  func_list :: "BottleneckBlock list"

definition LastClsOut_init_idx ::
  "int list \<Rightarrow> bool \<Rightarrow> int list \<Rightarrow> string option \<Rightarrow> nat \<Rightarrow> BottleneckBlock list
     \<Rightarrow> py_error + BottleneckBlock list" where
  "LastClsOut_init_idx num_channel_list has_se num_filters_list name idx lst =
     py_bind (getitem num_channel_list idx) (\<lambda>num_channels.
     py_bind (getitem num_filters_list idx) (\<lambda>num_filters.
     py_bind (name_add name ''conv_'') (\<lambda>prefix.
     py_bind (BottleneckBlock_init num_channels num_filters has_se 1 True
                (Some (prefix @ str (idx + 1)))) (\<lambda>func.
       Inr (lst @ [func])))))"

definition LastClsOut_init ::
  "int list \<Rightarrow> bool \<Rightarrow> int list \<Rightarrow> string option \<Rightarrow> py_error + LastClsOut" where
  "LastClsOut_init num_channel_list has_se num_filters_list name =
     py_bind (for_loop [0..<length num_channel_list]
                (LastClsOut_init_idx num_channel_list has_se num_filters_list name) [])
       (\<lambda>lst. Inr \<lparr> func_list = lst \<rparr>)"

section \<open>HRNet and its named variants\<close>

definition HRNet_channels :: "(int \<times> int list list) list" where
  "HRNet_channels =
     [(18, [[18, 36], [18, 36, 72], [18, 36, 72, 144]]),
      (30, [[30, 60], [30, 60, 120], [30, 60, 120, 240]]),
      (32, [[32, 64], [32, 64, 128], [32, 64, 128, 256]]),
      (40, [[40, 80], [40, 80, 160], [40, 80, 160, 320]]),
      (44, [[44, 88], [44, 88, 176], [44, 88, 176, 352]]),
      (48, [[48, 96], [48, 96, 192], [48, 96, 192, 384]]),
      (60, [[60, 120], [60, 120, 240], [60, 120, 240, 480]]),
      (64, [[64, 128], [64, 128, 256], [64, 128, 256, 512]])]"

record HRNet =
  width :: int
  has_se :: bool
  channels :: "(int \<times> int list list) list"
  class_dim :: int
  conv_layer1_1 :: ConvBNLayer
  conv_layer1_2 :: ConvBNLayer
  la1 :: Layer1
  tr1 :: TransitionLayer
  st2 :: Stage
  tr2 :: TransitionLayer
  st3 :: Stage
  tr3 :: TransitionLayer
  st4 :: Stage
  last_cls :: LastClsOut
  cls_head_conv_list :: "ConvBNLayer list"
  conv_last :: ConvBNLayer
  pool2d_avg :: int
  out :: Linear

text \<open>\<^verbatim>\<open>channels_2, channels_3, channels_4 = self.channels[width]\<close>: \<^verbatim>\<open>KeyError\<close> for a
  width that is not a key, \<^verbatim>\<open>ValueError\<close> for an entry that is not three lists.\<close>

definition HRNet_stage_channels ::
  "(int \<times> int list list) list \<Rightarrow> int \<Rightarrow> py_error + int list \<times> int list \<times> int list" where
  "HRNet_stage_channels table w =
     (case map_of table w of
        None \<Rightarrow> Inl KeyError
      | Some [channels_2, channels_3, channels_4] \<Rightarrow> Inr (channels_2, channels_3, channels_4)
      | Some _ \<Rightarrow> Inl ValueError)"

definition HRNet_init_cls_head ::
  "int list \<Rightarrow> int list \<Rightarrow> nat \<Rightarrow> ConvBNLayer list \<Rightarrow> py_error + ConvBNLayer list" where
  "HRNet_init_cls_head num_filters_list last_num_filters idx lst =
     py_bind (getitem num_filters_list idx) (\<lambda>nf.
     py_bind (getitem last_num_filters idx) (\<lambda>lf.
       Inr (lst @ [ConvBNLayer_init (nf * 4) lf 3 2 1 (Some ''relu'')])))"

definition HRNet_init :: "int \<Rightarrow> bool \<Rightarrow> int \<Rightarrow> py_error + HRNet" where
  "HRNet_init w se cd =
     py_bind (HRNet_stage_channels HRNet_channels w) (\<lambda>(channels_2, channels_3, channels_4).
     let num_modules_2 = 1; num_modules_3 = 4; num_modules_4 = 3;
         c1_1 = ConvBNLayer_init 3 64 3 2 1 (Some ''relu'');
         c1_2 = ConvBNLayer_init 64 64 3 2 1 (Some ''relu'') in
     py_bind (Layer1_init 64 se (Some ''layer2'')) (\<lambda>l1.
     py_bind (TransitionLayer_init [256] channels_2 (Some ''tr1'')) (\<lambda>t1.
     py_bind (Stage_init channels_2 num_modules_2 channels_2 se True (Some ''st2'')) (\<lambda>s2.
     py_bind (TransitionLayer_init channels_2 channels_3 (Some ''tr2'')) (\<lambda>t2.
     py_bind (Stage_init channels_3 num_modules_3 channels_3 se True (Some ''st3'')) (\<lambda>s3.
     py_bind (TransitionLayer_init channels_3 channels_4 (Some ''tr3'')) (\<lambda>t3.
     py_bind (Stage_init channels_4 num_modules_4 channels_4 se True (Some ''st4'')) (\<lambda>s4.
     let num_filters_list = [32, 64, 128, 256] in
     py_bind (LastClsOut_init channels_4 se num_filters_list (Some ''cls_head'')) (\<lambda>cls.
     let last_num_filters = [256, 512, 1024] in
     py_bind (for_loop (py_range 3) (HRNet_init_cls_head num_filters_list last_num_filters) [])
       (\<lambda>head.
     let c_last = ConvBNLayer_init 1024 2048 1 1 1 (Some ''relu'');
         fc = \<lparr> in_features = 2048, out_features = cd,
                weight_attr = \<lparr> attr_initializer = Some (Uniform_stdv 2048),
                                attr_name = ''fc_weights'' \<rparr>,
                bias_attr = \<lparr> attr_initializer = None, attr_name = ''fc_offset'' \<rparr> \<rparr> in
     Inr \<lparr> width = w, has_se = se, channels = HRNet_channels, class_dim = cd,
           conv_layer1_1 = c1_1, conv_layer1_2 = c1_2, la1 = l1,
           tr1 = t1, st2 = s2, tr2 = t2, st3 = s3, tr3 = t3, st4 = s4,
           last_cls = cls, cls_head_conv_list = head, conv_last = c_last,
           pool2d_avg = 1, out = fc \<rparr>))))))))))"

text \<open>
  The named variants call \<^verbatim>\<open>HRNet(width=w, **args)\<close> and, for the \<^verbatim>\<open>SE_\<close> ones,
  \<^verbatim>\<open>HRNet(width=w, has_se=True, **args)\<close>. \<open>kwargs\<close> holds what \<^verbatim>\<open>args\<close> gives for the
  parameters of \<^verbatim>\<open>HRNet.__init__\<close> (\<open>None\<close>: not given); a parameter given twice is a
  \<^verbatim>\<open>TypeError\<close>, and a parameter not given takes its default.
\<close>

record kwargs =
  kw_width :: "int option"
  kw_has_se :: "bool option"
  kw_class_dim :: "int option"

definition HRNet_call :: "int option \<Rightarrow> bool option \<Rightarrow> kwargs \<Rightarrow> py_error + HRNet" where
  "HRNet_call w se args =
     (if (w \<noteq> None \<and> kw_width args \<noteq> None) \<or> (se \<noteq> None \<and> kw_has_se args \<noteq> None)
      then Inl TypeError
      else HRNet_init
             (case w of Some v \<Rightarrow> v | None \<Rightarrow> (case kw_width args of Some v \<Rightarrow> v | None \<Rightarrow> 18))
             (case se of Some v \<Rightarrow> v | None \<Rightarrow> (case kw_has_se args of Some v \<Rightarrow> v | None \<Rightarrow> False))
             (case kw_class_dim args of Some v \<Rightarrow> v | None \<Rightarrow> 1000))"

definition HRNet_W18_C :: "kwargs \<Rightarrow> py_error + HRNet" where
  "HRNet_W18_C args = HRNet_call (Some 18) None args"

definition HRNet_W30_C :: "kwargs \<Rightarrow> py_error + HRNet" where
  "HRNet_W30_C args = HRNet_call (Some 30) None args"

definition HRNet_W32_C :: "kwargs \<Rightarrow> py_error + HRNet" where
  "HRNet_W32_C args = HRNet_call (Some 32) None args"

definition HRNet_W40_C :: "kwargs \<Rightarrow> py_error + HRNet" where
  "HRNet_W40_C args = HRNet_call (Some 40) None args"

definition HRNet_W44_C :: "kwargs \<Rightarrow> py_error + HRNet" where
  "HRNet_W44_C args = HRNet_call (Some 44) None args"

definition HRNet_W48_C :: "kwargs \<Rightarrow> py_error + HRNet" where
  "HRNet_W48_C args = HRNet_call (Some 48) None args"

definition HRNet_W60_C :: "kwargs \<Rightarrow> py_error + HRNet" where
  "HRNet_W60_C args = HRNet_call (Some 60) None args"

definition HRNet_W64_C :: "kwargs \<Rightarrow> py_error + HRNet" where
  "HRNet_W64_C args = HRNet_call (Some 64) None args"

definition SE_HRNet_W18_C :: "kwargs \<Rightarrow> py_error + HRNet" where
  "SE_HRNet_W18_C args = HRNet_call (Some 18) (Some True) args"

definition SE_HRNet_W30_C :: "kwargs \<Rightarrow> py_error + HRNet" where
  "SE_HRNet_W30_C args = HRNet_call (Some 30) (Some True) args"

definition SE_HRNet_W32_C :: "kwargs \<Rightarrow> py_error + HRNet" where
  "SE_HRNet_W32_C args = HRNet_call (Some 32) (Some True) args"

definition SE_HRNet_W40_C :: "kwargs \<Rightarrow> py_error + HRNet" where
  "SE_HRNet_W40_C args = HRNet_call (Some 40) (Some True) args"

definition SE_HRNet_W44_C :: "kwargs \<Rightarrow> py_error + HRNet" where
  "SE_HRNet_W44_C args = HRNet_call (Some 44) (Some True) args"

definition SE_HRNet_W48_C :: "kwargs \<Rightarrow> py_error + HRNet" where
  "SE_HRNet_W48_C args = HRNet_call (Some 48) (Some True) args"

definition SE_HRNet_W60_C :: "kwargs \<Rightarrow> py_error + HRNet" where
  "SE_HRNet_W60_C args = HRNet_call (Some 60) (Some True) args"

definition SE_HRNet_W64_C :: "kwargs \<Rightarrow> py_error + HRNet" where
  "SE_HRNet_W64_C args = HRNet_call (Some 64) (Some True) args"

section \<open>What FuseLayers is to compute\<close>

text \<open>
  The definitions of this section are not translations of the source. They say, in closed
  form, which layers the constructor of \<^verbatim>\<open>FuseLayers\<close> is to create for a pair
  \<open>(i, j)\<close> of an output and an input branch, and which tensor branch \<open>j\<close> is to
  contribute to output \<open>i\<close>; the theorems compare the loops of the source with them.
  A list is subscripted with \<open>!\<close> here, so they mean something only for positions in
  range.
\<close>

text \<open>The 1x1 layer for a lower-resolution input \<open>j > i\<close>.\<close>

definition fuse_up_layer :: "int list \<Rightarrow> int list \<Rightarrow> nat \<Rightarrow> nat \<Rightarrow> ConvBNLayer" where
  "fuse_up_layer in_channels out_channels i j =
     ConvBNLayer_init (in_channels ! j) (out_channels ! i) 1 1 1 None"

text \<open>The \<open>k\<close>-th of the \<open>i - j\<close> stride-2 3x3 layers for a higher-resolution input
  \<open>j < i\<close>.\<close>

definition fuse_down_layer :: "int list \<Rightarrow> int list \<Rightarrow> nat \<Rightarrow> nat \<Rightarrow> nat \<Rightarrow> ConvBNLayer" where
  "fuse_down_layer in_channels out_channels i j k =
     ConvBNLayer_init (if k = 0 then in_channels ! j else out_channels ! j)
       (if k = i - j - 1 then out_channels ! i else out_channels ! j) 3 2 1
       (if k = i - j - 1 then None else Some ''relu'')"

text \<open>The layers for the pair \<open>(i, j)\<close>, for output \<open>i\<close>, and their number in all.\<close>

definition fuse_layers :: "int list \<Rightarrow> int list \<Rightarrow> nat \<Rightarrow> nat \<Rightarrow> ConvBNLayer list" where
  "fuse_layers in_channels out_channels i j =
     (if j > i then [fuse_up_layer in_channels out_channels i j]
      else map (fuse_down_layer in_channels out_channels i j) [0..<i - j])"

definition fuse_row_layers :: "int list \<Rightarrow> int list \<Rightarrow> nat \<Rightarrow> ConvBNLayer list" where
  "fuse_row_layers in_channels out_channels i =
     concat (map (fuse_layers in_channels out_channels i) [0..<length in_channels])"

text \<open>\<open>holds_at L idx ls\<close>: the list \<open>L\<close> holds the segment \<open>ls\<close> from position \<open>idx\<close> on.\<close>

definition holds_at :: "'a list \<Rightarrow> nat \<Rightarrow> 'a list \<Rightarrow> bool" where
  "holds_at L idx ls = (take (length ls) (drop idx L) = ls)"

text \<open>A tensor passed through a list of layers, first to last.\<close>

definition fuse_chain :: "ConvBNLayer list \<Rightarrow> tensor \<Rightarrow> tensor" where
  "fuse_chain ls y = foldl (\<lambda>y f. ConvBNLayer_forward f y) y ls"

text \<open>What branch \<open>j\<close> contributes to output \<open>i\<close>, for \<open>j \<noteq> i\<close>.\<close>

definition fuse_contribution :: "int list \<Rightarrow> int list \<Rightarrow> tensor list \<Rightarrow> nat \<Rightarrow> nat \<Rightarrow> tensor" where
  "fuse_contribution in_channels out_channels input i j =
     (if j > i then
        F_upsample (ConvBNLayer_forward (fuse_up_layer in_channels out_channels i j) (input ! j))
          (2 ^ (j - i)) ''nearest''
      else fuse_chain (map (fuse_down_layer in_channels out_channels i j) [0..<i - j]) (input ! j))"

text \<open>Output \<open>i\<close> before the final ReLU: the inputs \<open>j \<noteq> i\<close> are added to the branch's own
  value in the order of \<open>j\<close>.\<close>

definition fuse_add :: "int list \<Rightarrow> int list \<Rightarrow> tensor list \<Rightarrow> nat \<Rightarrow> tensor \<Rightarrow> nat \<Rightarrow> tensor" where
  "fuse_add in_channels out_channels input i residual j =
     (if j = i then residual
      else paddle_add residual (fuse_contribution in_channels out_channels input i j))"

definition fuse_residual :: "int list \<Rightarrow> int list \<Rightarrow> tensor list \<Rightarrow> nat \<Rightarrow> tensor" where
  "fuse_residual in_channels out_channels input i =
     foldl (fuse_add in_channels out_channels input i) (input ! i) [0..<length in_channels]"

definition fuse_count :: "nat \<Rightarrow> nat \<Rightarrow> nat" where
  "fuse_count actual n = (\<Sum>i<actual. \<Sum>j<n. if j > i then 1 else i - j)"

section \<open>What TransitionLayer is to compute\<close>

text \<open>What the constructor of \<^verbatim>\<open>TransitionLayer\<close> is to store for output branch \<open>i\<close>.\<close>

definition transition_func :: "int list \<Rightarrow> int list \<Rightarrow> nat \<Rightarrow> ConvBNLayer option" where
  "transition_func in_channels out_channels i =
     (if i < length in_channels then
        (if in_channels ! i \<noteq> out_channels ! i
         then Some (ConvBNLayer_init (in_channels ! i) (out_channels ! i) 3 1 1 (Some ''relu''))
         else None)
      else Some (ConvBNLayer_init (last in_channels) (out_channels ! i) 3 2 1 (Some ''relu'')))"

text \<open>What \<^verbatim>\<open>forward\<close> is to return at position \<open>i\<close> for the input list \<open>x\<close>: a stored
  layer is applied to \<open>x[i]\<close> where \<open>x\<close> has a position \<open>i\<close>, and to \<open>x[-1]\<close> otherwise.\<close>

definition transition_out :: "int list \<Rightarrow> int list \<Rightarrow> tensor list \<Rightarrow> nat \<Rightarrow> tensor" where
  "transition_out in_channels out_channels x i =
     (case transition_func in_channels out_channels i of
        None \<Rightarrow> x ! i
      | Some f \<Rightarrow> ConvBNLayer_forward f (if i < length x then x ! i else last x))"

section \<open>Channel counts\<close>

text \<open>
  The size of axis 1 (the channels of an image batch, the features of a matrix) of the
  tensor a graph denotes, by the shape rules of the framework operations: a convolution,
  a batch normalisation and a linear layer accept the size they were built for; an
  elementwise operation keeps the size its two operands share; pooling, resampling,
  activations and the insertion or removal of axes from position 2 on keep it. The result
  is \<open>None\<close> where these rules do not determine the size.
\<close>

fun channel_count :: "tensor \<Rightarrow> int option" where
  "channel_count (Input k c) = Some c"
| "channel_count (Conv2D_call cfg x) =
     (if channel_count x = Some (conv_in_channels cfg) then Some (conv_out_channels cfg) else None)"
| "channel_count (BatchNorm_call bn x) =
     (if channel_count x = Some (bn_num_channels bn) then Some (bn_num_channels bn) else None)"
| "channel_count (Linear_call l x) =
     (if channel_count x = Some (in_features l) then Some (out_features l) else None)"
| "channel_count (AdaptiveAvgPool2D_call n x) = channel_count x"
| "channel_count (paddle_add a b) = (if channel_count a = channel_count b then channel_count a else None)"
| "channel_count (paddle_multiply a b) =
     (if channel_count a = channel_count b then channel_count a else None)"
| "channel_count (paddle_squeeze x axes) = (if \<forall>a \<in> set axes. 2 \<le> a then channel_count x else None)"
| "channel_count (paddle_unsqueeze x axes) = (if \<forall>a \<in> set axes. 2 \<le> a then channel_count x else None)"
| "channel_count (F_relu x) = channel_count x"
| "channel_count (F_sigmoid x) = channel_count x"
| "channel_count (F_upsample x scale_factor mode) = channel_count x"

section \<open>What the branches and the stages are to hold\<close>

text \<open>How a block of branch \<open>i\<close> is created.\<close>

definition branch_block :: "int list \<Rightarrow> int list \<Rightarrow> bool \<Rightarrow> nat \<Rightarrow> BasicBlock \<Rightarrow> bool" where
  "branch_block in_channels out_channels se_flag i b =
     (i < length out_channels \<and>
      (\<exists>in_ch block_name.
         BasicBlock_init in_ch (out_channels ! i) 1 se_flag False (Some block_name) = Inr b))"

definition HRNet_widths :: "int set" where
  "HRNet_widths = {18, 30, 32, 40, 44, 48, 60, 64}"


section \<open>Loops and errors\<close>

lemma py_bind_Inr [simp]: "py_bind (Inr v) f = f v"
  by (simp add: py_bind_def)

lemma py_bind_Inl [simp]: "py_bind (Inl e) f = Inl e"
  by (simp add: py_bind_def)

lemma py_bind_eq_Inr: "py_bind m f = Inr r \<longleftrightarrow> (\<exists>v. m = Inr v \<and> f v = Inr r)"
  by (cases m) simp_all

lemma getitem_eq_Inr: "getitem xs i = Inr v \<longleftrightarrow> i < length xs \<and> v = xs ! i"
  by (auto simp: getitem_def)

lemma getitem_in_range: "i < length xs \<Longrightarrow> getitem xs i = Inr (xs ! i)"
  by (simp add: getitem_def)

lemma for_loop_append:
  "for_loop (xs @ ys) body s = py_bind (for_loop xs body s) (for_loop ys body)"
proof (induction xs arbitrary: s)
  case Nil
  show ?case by simp
next
  case (Cons x xs)
  show ?case
    by (cases "body x s") (simp_all add: Cons.IH)
qed

lemma for_loop_snoc:
  "for_loop (xs @ [x]) body s = py_bind (for_loop xs body s) (body x)"
proof -
  have "for_loop [x] body = body x"
    by (rule ext) (simp add: py_bind_def split: sum.splits)
  then show ?thesis by (simp add: for_loop_append)
qed

text \<open>A loop whose body only appends to a list.\<close>

lemma for_loop_appends:
  assumes "for_loop xs body lst = Inr lst'"
    and "\<And>x l l'. x \<in> set xs \<Longrightarrow> body x l = Inr l' \<Longrightarrow> l' = l @ g x"
  shows "lst' = lst @ concat (map g xs)"
  using assms
proof (induction xs arbitrary: lst)
  case Nil
  then show ?case by simp
next
  case (Cons x xs)
  from Cons.prems(1) obtain l1 where l1: "body x lst = Inr l1" and rest: "for_loop xs body l1 = Inr lst'"
    by (auto simp: py_bind_eq_Inr)
  have "l1 = lst @ g x" using Cons.prems(2) [OF _ l1] by simp
  moreover have "lst' = l1 @ concat (map g xs)"
    using Cons.IH [OF rest] Cons.prems(2) by simp
  ultimately show ?case by simp
qed

lemma holds_at_Cons:
  "holds_at L idx (f # fs) \<longleftrightarrow> idx < length L \<and> L ! idx = f \<and> holds_at L (Suc idx) fs"
proof (cases "idx < length L")
  case True
  then have "drop idx L = L ! idx # drop (Suc idx) L"
    by (simp add: Cons_nth_drop_Suc)
  then show ?thesis using True by (simp add: holds_at_def)
next
  case False
  then show ?thesis by (simp add: holds_at_def)
qed

lemma holds_at_append:
  "holds_at L idx (as @ bs) \<longleftrightarrow> holds_at L idx as \<and> holds_at L (idx + length as) bs"
proof (induction as arbitrary: idx)
  case Nil
  show ?case by (simp add: holds_at_def)
next
  case (Cons a as)
  show ?case by (simp add: holds_at_Cons Cons.IH) 
qed

lemma holds_at_whole: "holds_at L 0 L"
  by (simp add: holds_at_def)

text \<open>A loop that reads, at every turn, the next segment of a list.\<close>

lemma for_loop_reads:
  assumes "holds_at L idx (concat (map g xs))"
    and "\<And>x v k r. x \<in> set xs \<Longrightarrow> holds_at L k (g x) \<Longrightarrow>
           body x (v, k, r) = Inr (h v x, k + length (g x), r @ [k..<k + length (g x)])"
  shows "for_loop xs body (v, idx, reads)
         = Inr (foldl h v xs, idx + length (concat (map g xs)),
                reads @ [idx..<idx + length (concat (map g xs))])"
  using assms
proof (induction xs arbitrary: v idx reads)
  case Nil
  then show ?case by simp
next
  case (Cons x xs)
  from Cons.prems(1) have here: "holds_at L idx (g x)"
    and rest: "holds_at L (idx + length (g x)) (concat (map g xs))"
    by (simp_all add: holds_at_append)
  have step: "body x (v, idx, reads)
              = Inr (h v x, idx + length (g x), reads @ [idx..<idx + length (g x)])"
    using Cons.prems(2) [OF _ here] by simp
  have "for_loop xs body (h v x, idx + length (g x), reads @ [idx..<idx + length (g x)])
        = Inr (foldl h (h v x) xs, idx + length (g x) + length (concat (map g xs)),
               (reads @ [idx..<idx + length (g x)])
                 @ [idx + length (g x)..<idx + length (g x) + length (concat (map g xs))])"
    using rest Cons.prems(2) by (intro Cons.IH) simp_all
  moreover have "[idx..<idx + length (g x)]
                   @ [idx + length (g x)..<idx + length (g x) + length (concat (map g xs))]
                 = [idx..<idx + length (g x) + length (concat (map g xs))]"
    by (simp add: upt_add_eq_append [symmetric])
  ultimately show ?case
    by (simp add: step add.assoc)
qed

lemma length_concat_upt: "length (concat (map f [0..<n])) = (\<Sum>k<n. length (f k))"
  by (induction n) simp_all

section \<open>FuseLayers: the constructor and the forward pass agree\<close>

lemma FuseLayers_init_k_loop:
  assumes "for_loop [0..<m] (FuseLayers_init_k out_channels i j) (in_channels ! j, lst) = Inr (p, lst')"
    and "m \<le> i - j"
  shows "lst' = lst @ map (fuse_down_layer in_channels out_channels i j) [0..<m]
         \<and> (m < i - j \<longrightarrow> p = (if m = 0 then in_channels ! j else out_channels ! j))"
  using assms
proof (induction m arbitrary: p lst')
  case 0
  then show ?case by simp
next
  case (Suc m)
  from Suc.prems(1) obtain p0 l0 where
    before: "for_loop [0..<m] (FuseLayers_init_k out_channels i j) (in_channels ! j, lst) = Inr (p0, l0)"
    and step: "FuseLayers_init_k out_channels i j m (p0, l0) = Inr (p, lst')"
    by (auto simp: for_loop_snoc py_bind_eq_Inr)
  from Suc.prems(2) have m: "m < i - j" by simp
  with Suc.IH [OF before] have
    l0: "l0 = lst @ map (fuse_down_layer in_channels out_channels i j) [0..<m]"
    and p0: "p0 = (if m = 0 then in_channels ! j else out_channels ! j)"
    by simp_all
  from step have "lst' = l0 @ [fuse_down_layer in_channels out_channels i j m]"
    and "Suc m < i - j \<longrightarrow> p = out_channels ! j"
    by (auto simp: FuseLayers_init_k_def fuse_down_layer_def p0 py_bind_eq_Inr getitem_eq_Inr
          split: if_splits)
  with l0 show ?case by simp
qed

lemma FuseLayers_init_j_appends:
  assumes "FuseLayers_init_j in_channels out_channels i j lst = Inr lst'"
  shows "lst' = lst @ fuse_layers in_channels out_channels i j"
proof -
  consider "j > i" | "j < i" | "j = i" by linarith
  then show ?thesis
  proof cases
    case 1
    with assms show ?thesis
      by (auto simp: FuseLayers_init_j_def fuse_layers_def fuse_up_layer_def py_bind_eq_Inr
            getitem_eq_Inr)
  next
    case 2
    with assms obtain p where
      "for_loop [0..<i - j] (FuseLayers_init_k out_channels i j) (in_channels ! j, lst) = Inr (p, lst')"
      by (auto simp: FuseLayers_init_j_def py_bind_eq_Inr getitem_eq_Inr)
    from FuseLayers_init_k_loop [OF this] 2 show ?thesis
      by (simp add: fuse_layers_def)
  next
    case 3
    with assms show ?thesis
      by (simp add: FuseLayers_init_j_def fuse_layers_def)
  qed
qed

lemma FuseLayers_init_list:
  assumes "FuseLayers_init in_channels out_channels multi_scale_output name = Inr fl"
  shows "actual_ch fl = (if multi_scale_output then length in_channels else 1)"
    and "fuse_in_channels fl = in_channels"
    and "residual_func_list fl =
           concat (map (fuse_row_layers in_channels out_channels) [0..<actual_ch fl])"
proof -
  let ?a = "if multi_scale_output then length in_channels else 1"
  from assms obtain lst where
    loop: "for_loop [0..<?a]
             (\<lambda>i. for_loop [0..<length in_channels] (FuseLayers_init_j in_channels out_channels i))
             [] = Inr lst"
    and fl: "fl = \<lparr> actual_ch = ?a, fuse_in_channels = in_channels, residual_func_list = lst \<rparr>"
    by (auto simp: FuseLayers_init_def Let_def py_bind_eq_Inr)
  have row: "l' = l @ fuse_row_layers in_channels out_channels i"
    if "for_loop [0..<length in_channels] (FuseLayers_init_j in_channels out_channels i) l = Inr l'"
    for i l l'
    unfolding fuse_row_layers_def
    using that by (rule for_loop_appends) (rule FuseLayers_init_j_appends)
  have "lst = [] @ concat (map (fuse_row_layers in_channels out_channels) [0..<?a])"
    using loop by (rule for_loop_appends) (rule row)
  with fl show "actual_ch fl = ?a" "fuse_in_channels fl = in_channels"
    "residual_func_list fl = concat (map (fuse_row_layers in_channels out_channels) [0..<actual_ch fl])"
    by simp_all
qed

lemma FuseLayers_forward_k_loop:
  assumes "holds_at (residual_func_list self) idx ls" and "length xs = length ls"
  shows "for_loop xs (FuseLayers_forward_k self) (y, idx, reads)
         = Inr (fuse_chain ls y, idx + length ls, reads @ [idx..<idx + length ls])"
  using assms
proof (induction ls arbitrary: xs y idx reads)
  case Nil
  then show ?case by (simp add: fuse_chain_def)
next
  case (Cons f fs)
  from Cons.prems(2) obtain x xs' where xs: "xs = x # xs'" and len: "length xs' = length fs"
    by (cases xs) auto
  from Cons.prems(1) have at: "idx < length (residual_func_list self)"
    "residual_func_list self ! idx = f" and rest: "holds_at (residual_func_list self) (Suc idx) fs"
    by (simp_all add: holds_at_Cons)
  have step: "FuseLayers_forward_k self x (y, idx, reads)
              = Inr (ConvBNLayer_forward f y, Suc idx, reads @ [idx])"
    using at by (simp add: FuseLayers_forward_k_def getitem_in_range)
  have "[idx..<idx + length (f # fs)] = idx # [Suc idx..<Suc idx + length fs]"
    by (simp add: upt_rec)
  then show ?case
    using Cons.IH [OF rest len] by (simp add: xs step fuse_chain_def)
qed

lemma FuseLayers_forward_j_step:
  assumes "holds_at (residual_func_list self) idx (fuse_layers in_channels out_channels i j)"
    and "j < length input"
  shows "FuseLayers_forward_j self input i j (residual, idx, reads)
         = Inr (fuse_add in_channels out_channels input i residual j,
                idx + length (fuse_layers in_channels out_channels i j),
                reads @ [idx..<idx + length (fuse_layers in_channels out_channels i j)])"
proof -
  consider "j > i" | "j < i" | "j = i" by linarith
  then show ?thesis
  proof cases
    case 1
    with assms(1) have "idx < length (residual_func_list self)"
      "residual_func_list self ! idx = fuse_up_layer in_channels out_channels i j"
      by (simp_all add: fuse_layers_def holds_at_Cons)
    with 1 assms(2) show ?thesis
      by (simp add: FuseLayers_forward_j_def fuse_add_def fuse_contribution_def fuse_layers_def
            getitem_in_range Let_def)
  next
    case 2
    let ?ls = "map (fuse_down_layer in_channels out_channels i j) [0..<i - j]"
    from 2 assms(1) have "holds_at (residual_func_list self) idx ?ls"
      by (simp add: fuse_layers_def)
    from FuseLayers_forward_k_loop [OF this, of "[0..<i - j]" "input ! j" reads]
    have "for_loop [0..<i - j] (FuseLayers_forward_k self) (input ! j, idx, reads)
          = Inr (fuse_chain ?ls (input ! j), idx + (i - j), reads @ [idx..<idx + (i - j)])"
      by simp
    with 2 assms(2) show ?thesis
      by (simp add: FuseLayers_forward_j_def fuse_add_def fuse_contribution_def fuse_layers_def
            getitem_in_range)
  next
    case 3
    then show ?thesis
      by (simp add: FuseLayers_forward_j_def fuse_add_def fuse_layers_def)
  qed
qed

lemma FuseLayers_forward_i_step:
  assumes "holds_at (residual_func_list self) idx (fuse_row_layers (fuse_in_channels self) out_channels i)"
    and "length (fuse_in_channels self) \<le> length input" and "i < length input"
  shows "FuseLayers_forward_i self input i (outs, idx, reads)
         = Inr (outs @ [F_relu (fuse_residual (fuse_in_channels self) out_channels input i)],
                idx + length (fuse_row_layers (fuse_in_channels self) out_channels i),
                reads @ [idx..<idx + length (fuse_row_layers (fuse_in_channels self) out_channels i)])"
proof -
  let ?in = "fuse_in_channels self"
  have "for_loop [0..<length ?in] (FuseLayers_forward_j self input i) (input ! i, idx, reads)
        = Inr (foldl (fuse_add ?in out_channels input i) (input ! i) [0..<length ?in],
               idx + length (concat (map (fuse_layers ?in out_channels i) [0..<length ?in])),
               reads @ [idx..<idx + length (concat (map (fuse_layers ?in out_channels i) [0..<length ?in]))])"
  proof (rule for_loop_reads)
    show "holds_at (residual_func_list self) idx
            (concat (map (fuse_layers ?in out_channels i) [0..<length ?in]))"
      using assms(1) by (simp add: fuse_row_layers_def)
  next
    fix x v k r
    assume "x \<in> set [0..<length ?in]"
      and "holds_at (residual_func_list self) k (fuse_layers ?in out_channels i x)"
    then show "FuseLayers_forward_j self input i x (v, k, r)
               = Inr (fuse_add ?in out_channels input i v x,
                      k + length (fuse_layers ?in out_channels i x),
                      r @ [k..<k + length (fuse_layers ?in out_channels i x)])"
      using assms(2) by (intro FuseLayers_forward_j_step) simp_all
  qed
  then show ?thesis
    using assms(3)
    by (simp add: FuseLayers_forward_i_def getitem_in_range fuse_residual_def fuse_row_layers_def)
qed

lemma FuseLayers_forward_run_eq:
  assumes "FuseLayers_init in_channels out_channels multi_scale_output name = Inr fl"
    and "length in_channels \<le> length input" and "actual_ch fl \<le> length input"
  shows "FuseLayers_forward_run fl input
         = Inr (map (\<lambda>i. F_relu (fuse_residual in_channels out_channels input i)) [0..<actual_ch fl],
                length (residual_func_list fl), [0..<length (residual_func_list fl)])"
proof -
  note fl = FuseLayers_init_list [OF assms(1)]
  let ?h = "\<lambda>outs i. outs @ [F_relu (fuse_residual in_channels out_channels input i)]"
  have "for_loop [0..<actual_ch fl] (FuseLayers_forward_i fl input) ([], 0, [])
        = Inr (foldl ?h [] [0..<actual_ch fl],
               0 + length (concat (map (fuse_row_layers in_channels out_channels) [0..<actual_ch fl])),
               [] @ [0..<0 + length (concat (map (fuse_row_layers in_channels out_channels) [0..<actual_ch fl]))])"
  proof (rule for_loop_reads)
    show "holds_at (residual_func_list fl) 0
            (concat (map (fuse_row_layers in_channels out_channels) [0..<actual_ch fl]))"
      using fl(3) holds_at_whole [of "residual_func_list fl"] by simp
  next
    fix x v k r
    assume "x \<in> set [0..<actual_ch fl]"
      and "holds_at (residual_func_list fl) k (fuse_row_layers in_channels out_channels x)"
    then show "FuseLayers_forward_i fl input x (v, k, r)
               = Inr (v @ [F_relu (fuse_residual in_channels out_channels input x)],
                      k + length (fuse_row_layers in_channels out_channels x),
                      r @ [k..<k + length (fuse_row_layers in_channels out_channels x)])"
      using FuseLayers_forward_i_step [of fl k out_channels x input v r] assms(2,3) fl(2)
      by simp
  qed
  moreover have "foldl ?h acc xs
                 = acc @ map (\<lambda>i. F_relu (fuse_residual in_channels out_channels input i)) xs"
    for acc xs
    by (induction xs arbitrary: acc) simp_all
  ultimately show ?thesis
    using fl(3) by (simp add: FuseLayers_forward_run_def)
qed

lemma foldl_fuse_add:
  "foldl (fuse_add in_channels out_channels input i) r js
   = foldl paddle_add r
       (map (fuse_contribution in_channels out_channels input i) (filter (\<lambda>j. j \<noteq> i) js))"
  by (induction js arbitrary: r) (simp_all add: fuse_add_def)

text \<open>
  C1. For a constructed \<^verbatim>\<open>FuseLayers\<close> and an input with a tensor for every branch,
  \<^verbatim>\<open>forward\<close> returns one tensor per output branch, and output \<open>i\<close> is the ReLU of the
  sum of \<open>input[i]\<close> and the contributions of all other branches \<open>j\<close>, added in the
  order of \<open>j\<close>. For \<open>j > i\<close> the contribution is \<open>input[j]\<close> passed through a 1x1
  \<^verbatim>\<open>ConvBNLayer\<close> (stride 1, no activation, \<open>in_channels[j]\<close> to \<open>out_channels[i]\<close>
  channels) and then upsampled in mode \<^verbatim>\<open>nearest\<close> by the scale factor \<open>2 ^ (j - i)\<close>.
\<close>

theorem FuseLayers_forward_fuses:
  assumes "FuseLayers_init in_channels out_channels multi_scale_output name = Inr fl"
    and "length in_channels \<le> length input" and "actual_ch fl \<le> length input"
    and "i < actual_ch fl"
  shows "(\<exists>outs. FuseLayers_forward fl input = Inr outs \<and> length outs = actual_ch fl \<and>
            outs ! i = F_relu (foldl paddle_add (input ! i)
              (map (fuse_contribution in_channels out_channels input i)
                 (filter (\<lambda>j. j \<noteq> i) [0..<length in_channels])))) \<and>
         (\<forall>j. i < j \<longrightarrow>
            fuse_contribution in_channels out_channels input i j =
              F_upsample
                (BatchNorm_call \<lparr> bn_num_channels = out_channels ! i, bn_act = None \<rparr>
                   (Conv2D_call \<lparr> conv_in_channels = in_channels ! j,
                                   conv_out_channels = out_channels ! i,
                                   kernel_size = 1, conv_stride = 1, padding = 0,
                                   conv_groups = 1, conv_bias_attr = False \<rparr>
                      (input ! j)))
                (2 ^ (j - i)) ''nearest'')"
proof (intro conjI allI impI)
  let ?outs = "map (\<lambda>i. F_relu (fuse_residual in_channels out_channels input i)) [0..<actual_ch fl]"
  have run: "FuseLayers_forward fl input = Inr ?outs"
    using FuseLayers_forward_run_eq [OF assms(1-3)] by (simp add: FuseLayers_forward_def)
  have "?outs ! i = F_relu (fuse_residual in_channels out_channels input i)"
    using assms(4) by simp
  then have "?outs ! i = F_relu (foldl paddle_add (input ! i)
              (map (fuse_contribution in_channels out_channels input i)
                 (filter (\<lambda>j. j \<noteq> i) [0..<length in_channels])))"
    by (simp add: fuse_residual_def foldl_fuse_add)
  with run show "\<exists>outs. FuseLayers_forward fl input = Inr outs \<and> length outs = actual_ch fl \<and>
            outs ! i = F_relu (foldl paddle_add (input ! i)
              (map (fuse_contribution in_channels out_channels input i)
                 (filter (\<lambda>j. j \<noteq> i) [0..<length in_channels])))"
    by simp
next
  fix j assume "i < j"
  then show "fuse_contribution in_channels out_channels input i j =
              F_upsample
                (BatchNorm_call \<lparr> bn_num_channels = out_channels ! i, bn_act = None \<rparr>
                   (Conv2D_call \<lparr> conv_in_channels = in_channels ! j,
                                   conv_out_channels = out_channels ! i,
                                   kernel_size = 1, conv_stride = 1, padding = 0,
                                   conv_groups = 1, conv_bias_attr = False \<rparr>
                      (input ! j)))
                (2 ^ (j - i)) ''nearest''"
    by (simp add: fuse_contribution_def fuse_up_layer_def ConvBNLayer_init_def
          ConvBNLayer_forward_def)
qed

lemma FuseLayers_init_2: "FuseLayers_init [18, 36] [18, 36] True None = Inr
  \<lparr> actual_ch = 2, fuse_in_channels = [18, 36],
    residual_func_list = [ConvBNLayer_init 36 18 1 1 1 None, ConvBNLayer_init 18 36 3 2 1 None] \<rparr>"
  by code_simp

theorem FuseLayers_forward_fuses_witness:
  "\<exists>fl. FuseLayers_init [18, 36] [18, 36] True None = Inr fl \<and>
     (\<exists>outs. FuseLayers_forward fl [Input 0 18, Input 1 36] = Inr outs \<and> length outs = 2 \<and>
        outs ! 0 = F_relu (paddle_add (Input 0 18)
          (F_upsample
             (BatchNorm_call \<lparr> bn_num_channels = 18, bn_act = None \<rparr>
                (Conv2D_call \<lparr> conv_in_channels = 36, conv_out_channels = 18,
                                kernel_size = 1, conv_stride = 1, padding = 0,
                                conv_groups = 1, conv_bias_attr = False \<rparr>
                   (Input 1 36)))
             2 ''nearest'')))"
proof -
  let ?input = "[Input 0 18, Input 1 36]"
  have filt: "filter (\<lambda>j. j \<noteq> 0) [0..<2] = [Suc 0]"
    by code_simp
  note th = FuseLayers_forward_fuses [OF FuseLayers_init_2, of ?input 0]
  from th obtain outs where outs: "FuseLayers_forward
       \<lparr> actual_ch = 2, fuse_in_channels = [18, 36],
         residual_func_list = [ConvBNLayer_init 36 18 1 1 1 None, ConvBNLayer_init 18 36 3 2 1 None] \<rparr>
       ?input = Inr outs" "length outs = 2"
    "outs ! 0 = F_relu (paddle_add (Input 0 18) (fuse_contribution [18, 36] [18, 36] ?input 0 (Suc 0)))"
    by (auto simp: filt)
  from th have "fuse_contribution [18, 36] [18, 36] ?input 0 (Suc 0) =
      F_upsample
             (BatchNorm_call \<lparr> bn_num_channels = 18, bn_act = None \<rparr>
                (Conv2D_call \<lparr> conv_in_channels = 36, conv_out_channels = 18,
                                kernel_size = 1, conv_stride = 1, padding = 0,
                                conv_groups = 1, conv_bias_attr = False \<rparr>
                   (Input 1 36)))
             2 ''nearest''"
    by simp
  with outs show ?thesis
    by (simp add: FuseLayers_init_2)
qed

lemma length_fuse_layers:
  "length (fuse_layers in_channels out_channels i j) = (if j > i then 1 else i - j)"
  by (simp add: fuse_layers_def)

lemma length_fuse_rows:
  "length (concat (map (fuse_row_layers in_channels out_channels) [0..<a]))
   = fuse_count a (length in_channels)"
  by (simp add: length_concat_upt fuse_row_layers_def length_fuse_layers fuse_count_def)

text \<open>
  C8. The constructor appends, for each output \<open>i < actual_ch\<close>, one layer per \<open>j > i\<close>
  and \<open>i - j\<close> layers per \<open>j < i\<close>; \<^verbatim>\<open>forward\<close> ends with
  \<^verbatim>\<open>residual_func_idx\<close> equal to the length of \<^verbatim>\<open>residual_func_list\<close>, raises no
  \<^verbatim>\<open>IndexError\<close>, and subscripts the list at the positions \<open>0, 1, ...\<close> up to its
  length, each exactly once.
\<close>

theorem FuseLayers_index_alignment:
  assumes "FuseLayers_init in_channels out_channels multi_scale_output name = Inr fl"
    and "length in_channels \<le> length input" and "actual_ch fl \<le> length input"
  shows "length (residual_func_list fl) = fuse_count (actual_ch fl) (length in_channels) \<and>
         (\<exists>outs. FuseLayers_forward_run fl input
            = Inr (outs, length (residual_func_list fl), [0..<length (residual_func_list fl)]))"
proof
  show "length (residual_func_list fl) = fuse_count (actual_ch fl) (length in_channels)"
    using FuseLayers_init_list(3) [OF assms(1)] by (simp add: length_fuse_rows)
  show "\<exists>outs. FuseLayers_forward_run fl input
            = Inr (outs, length (residual_func_list fl), [0..<length (residual_func_list fl)])"
    using FuseLayers_forward_run_eq [OF assms] by simp
qed

lemma FuseLayers_init_3: "FuseLayers_init [18, 36, 72] [18, 36, 72] True (Some ''st3_1'') = Inr
  \<lparr> actual_ch = 3, fuse_in_channels = [18, 36, 72],
    residual_func_list =
      [ConvBNLayer_init 36 18 1 1 1 None, ConvBNLayer_init 72 18 1 1 1 None,
       ConvBNLayer_init 18 36 3 2 1 None, ConvBNLayer_init 72 36 1 1 1 None,
       ConvBNLayer_init 18 18 3 2 1 (Some ''relu''), ConvBNLayer_init 18 72 3 2 1 None,
       ConvBNLayer_init 36 72 3 2 1 None] \<rparr>"
  by code_simp

theorem FuseLayers_index_alignment_witness:
  "\<exists>fl outs. FuseLayers_init [18, 36, 72] [18, 36, 72] True (Some ''st3_1'') = Inr fl \<and>
     length (residual_func_list fl) = 7 \<and> fuse_count (actual_ch fl) 3 = 7 \<and>
     FuseLayers_forward_run fl [Input 0 18, Input 1 36, Input 2 72] = Inr (outs, 7, [0, 1, 2, 3, 4, 5, 6])"
proof -
  let ?input = "[Input 0 18, Input 1 36, Input 2 72]"
  let ?fl = "\<lparr> actual_ch = 3, fuse_in_channels = [18, 36, 72],
         residual_func_list =
           [ConvBNLayer_init 36 18 1 1 1 None, ConvBNLayer_init 72 18 1 1 1 None,
            ConvBNLayer_init 18 36 3 2 1 None, ConvBNLayer_init 72 36 1 1 1 None,
            ConvBNLayer_init 18 18 3 2 1 (Some ''relu''), ConvBNLayer_init 18 72 3 2 1 None,
            ConvBNLayer_init 36 72 3 2 1 None] \<rparr>"
  have upt7: "[0..<7] = [0, 1, 2, 3, 4, 5, 6 :: nat]"
    by code_simp
  have pre1: "length [18, 36, 72 :: int] \<le> length ?input"
    by simp
  have pre2: "actual_ch ?fl \<le> length ?input"
    by simp
  note th = FuseLayers_index_alignment [OF FuseLayers_init_3 pre1 pre2]
  have len: "length (residual_func_list ?fl) = 7"
    by simp
  have l3: "length [18, 36, 72 :: int] = 3"
    by simp
  from th have "length (residual_func_list ?fl)
      = fuse_count (actual_ch ?fl) (length [18, 36, 72 :: int])"
    by (rule conjunct1)
  then have count: "fuse_count (actual_ch ?fl) 3 = 7"
    unfolding len l3 by (rule sym)
  from th have "\<exists>outs. FuseLayers_forward_run ?fl ?input
      = Inr (outs, length (residual_func_list ?fl), [0..<length (residual_func_list ?fl)])"
    by (rule conjunct2)
  then obtain outs where "FuseLayers_forward_run ?fl ?input = Inr (outs, 7, [0, 1, 2, 3, 4, 5, 6])"
    unfolding len upt7 by blast
  with FuseLayers_init_3 len count show ?thesis
    by blast
qed

section \<open>TransitionLayer\<close>

lemma getitem_last_eq_Inr: "getitem_last xs = Inr v \<longleftrightarrow> xs \<noteq> [] \<and> v = last xs"
  by (auto simp: getitem_last_def)

text \<open>A loop that returns has returned from every turn.\<close>

lemma for_loop_turn:
  assumes "for_loop xs body s = Inr s'" and "x \<in> set xs"
  shows "\<exists>s1 s2. body x s1 = Inr s2"
  using assms
proof (induction xs arbitrary: s)
  case Nil
  then show ?case by simp
next
  case (Cons y ys)
  from Cons.prems(1) obtain s1 where y: "body y s = Inr s1" and rest: "for_loop ys body s1 = Inr s'"
    by (auto simp: py_bind_eq_Inr)
  show ?case
  proof (cases "x = y")
    case True
    with y show ?thesis by blast
  next
    case False
    with Cons.prems(2) have "x \<in> set ys" by simp
    from Cons.IH [OF rest this] show ?thesis .
  qed
qed

text \<open>A loop whose body appends one element that depends on the loop variable only.\<close>

lemma for_loop_map:
  assumes "\<And>x outs. x \<in> set xs \<Longrightarrow> body x outs = Inr (outs @ [h x])"
  shows "for_loop xs body acc = Inr (acc @ map h xs)"
  using assms
proof (induction xs arbitrary: acc)
  case Nil
  show ?case by simp
next
  case (Cons x xs)
  have "body x acc = Inr (acc @ [h x])"
    using Cons.prems by simp
  moreover have "for_loop xs body (acc @ [h x]) = Inr ((acc @ [h x]) @ map h xs)"
    using Cons.prems by (intro Cons.IH) simp
  ultimately show ?case by simp
qed

lemma enumerate_map_upt: "enumerate 0 (map f [0..<n]) = map (\<lambda>i. (i, f i)) [0..<n]"
  by (simp add: enumerate_eq_zip zip_map2 zip_same_conv_map)

lemma TransitionLayer_init_i_appends:
  assumes "TransitionLayer_init_i in_channels out_channels i lst = Inr lst'"
  shows "lst' = lst @ [transition_func in_channels out_channels i]"
  using assms
  by (auto simp: TransitionLayer_init_i_def transition_func_def py_bind_eq_Inr getitem_eq_Inr
        getitem_last_eq_Inr split: if_splits)

lemma TransitionLayer_init_list:
  assumes "TransitionLayer_init in_channels out_channels name = Inr trl"
  shows "conv_bn_func_list trl = map (transition_func in_channels out_channels) [0..<length out_channels]"
    and "length in_channels < length out_channels \<Longrightarrow> in_channels \<noteq> []"
proof -
  from assms obtain lst where
    loop: "for_loop [0..<length out_channels] (TransitionLayer_init_i in_channels out_channels) [] = Inr lst"
    and trl: "trl = \<lparr> conv_bn_func_list = lst \<rparr>"
    by (auto simp: TransitionLayer_init_def py_bind_eq_Inr)
  have "lst = [] @ concat (map (\<lambda>i. [transition_func in_channels out_channels i]) [0..<length out_channels])"
    using loop by (rule for_loop_appends) (rule TransitionLayer_init_i_appends)
  then show "conv_bn_func_list trl = map (transition_func in_channels out_channels) [0..<length out_channels]"
    by (simp add: trl concat_map_singleton)
  show "in_channels \<noteq> []" if "length in_channels < length out_channels"
  proof -
    from that have "length in_channels \<in> set [0..<length out_channels]" by simp
    from for_loop_turn [OF loop this] obtain s1 s2 where
      "TransitionLayer_init_i in_channels out_channels (length in_channels) s1 = Inr s2"
      by blast
    then show ?thesis
      by (auto simp: TransitionLayer_init_i_def py_bind_eq_Inr getitem_last_eq_Inr)
  qed
qed

lemma TransitionLayer_forward_step_appends:
  assumes "TransitionLayer_forward_step x (i, transition_func in_channels out_channels i) outs = Inr outs'"
  shows "outs' = outs @ [transition_out in_channels out_channels x i]"
  using assms
  by (auto simp: TransitionLayer_forward_step_def transition_out_def py_bind_eq_Inr getitem_eq_Inr
        getitem_last_eq_Inr split: option.splits if_splits)

lemma TransitionLayer_forward_returns:
  assumes "TransitionLayer_init in_channels out_channels name = Inr trl"
    and "TransitionLayer_forward trl x = Inr outs"
  shows "outs = map (transition_out in_channels out_channels x) [0..<length out_channels]"
proof -
  let ?f = "transition_func in_channels out_channels"
  let ?ps = "map (\<lambda>i. (i, ?f i)) [0..<length out_channels]"
  from assms(2) have loop: "for_loop ?ps (TransitionLayer_forward_step x) [] = Inr outs"
    by (simp add: TransitionLayer_forward_def TransitionLayer_init_list(1) [OF assms(1)]
          enumerate_map_upt)
  have "outs = [] @ concat (map (\<lambda>p. [transition_out in_channels out_channels x (fst p)]) ?ps)"
    using loop
  proof (rule for_loop_appends)
    fix p l l'
    assume "p \<in> set ?ps" and step: "TransitionLayer_forward_step x p l = Inr l'"
    then obtain i where "p = (i, ?f i)"
      by auto
    with step show "l' = l @ [transition_out in_channels out_channels x (fst p)]"
      by (simp add: TransitionLayer_forward_step_appends)
  qed
  then show ?thesis
    by (simp add: comp_def concat_map_singleton)
qed

lemma TransitionLayer_forward_ok:
  assumes "TransitionLayer_init in_channels out_channels name = Inr trl"
    and "length x = length in_channels"
  shows "\<exists>outs. TransitionLayer_forward trl x = Inr outs"
proof -
  note trl = TransitionLayer_init_list [OF assms(1)]
  let ?f = "transition_func in_channels out_channels"
  have "for_loop (map (\<lambda>i. (i, ?f i)) [0..<length out_channels]) (TransitionLayer_forward_step x) []
        = Inr ([] @ map (\<lambda>p. transition_out in_channels out_channels x (fst p))
                      (map (\<lambda>i. (i, ?f i)) [0..<length out_channels]))"
  proof (rule for_loop_map)
    fix p outs
    assume "p \<in> set (map (\<lambda>i. (i, ?f i)) [0..<length out_channels])"
    then obtain i where p: "p = (i, ?f i)" and i: "i < length out_channels"
      by auto
    show "TransitionLayer_forward_step x p outs
          = Inr (outs @ [transition_out in_channels out_channels x (fst p)])"
    proof (cases "i < length in_channels")
      case True
      with assms(2) show ?thesis
        by (simp add: p TransitionLayer_forward_step_def transition_out_def getitem_in_range
              split: option.splits)
    next
      case False
      with i trl(2) have "x \<noteq> []" using assms(2) by auto
      moreover from False obtain f where "?f i = Some f"
        by (simp add: transition_func_def)
      ultimately show ?thesis
        using False assms(2)
        by (simp add: p TransitionLayer_forward_step_def transition_out_def getitem_last_def)
    qed
  qed
  then show ?thesis
    by (simp add: TransitionLayer_forward_def trl(1) enumerate_map_upt)
qed

text \<open>
  C9. For a constructed \<^verbatim>\<open>TransitionLayer\<close>, \<^verbatim>\<open>forward\<close> returns when the input \<open>x\<close> has one
  tensor per input branch, and whatever list it returns has length \<open>len(out_channels)\<close>. At
  a position \<open>i < len(in_channels)\<close> with \<open>in_channels[i] = out_channels[i]\<close> the stored
  function is \<^verbatim>\<open>None\<close> and the output is \<open>x[i]\<close> itself. At a position
  \<open>i \<ge> len(in_channels)\<close> the stored function is a 3x3 \<^verbatim>\<open>ConvBNLayer\<close> of stride 2, from
  \<open>in_channels[-1]\<close> to \<open>out_channels[i]\<close> channels, and the output is that layer applied to
  \<open>x[-1]\<close>, the input list having no position \<open>i\<close> (an input list that is longer than
  \<open>in_channels\<close> and has a position \<open>i\<close> gives that layer applied to \<open>x[i]\<close>).
\<close>

theorem TransitionLayer_forward_branches:
  assumes "TransitionLayer_init in_channels out_channels name = Inr trl"
  shows "(length x = length in_channels \<longrightarrow> (\<exists>outs. TransitionLayer_forward trl x = Inr outs)) \<and>
         (\<forall>outs. TransitionLayer_forward trl x = Inr outs \<longrightarrow>
            length outs = length out_channels \<and>
            (\<forall>i. i < length in_channels \<and> i < length out_channels \<and> in_channels ! i = out_channels ! i
               \<longrightarrow> conv_bn_func_list trl ! i = None \<and> outs ! i = x ! i) \<and>
            (\<forall>i. length in_channels \<le> i \<and> i < length out_channels
               \<longrightarrow> (\<exists>f. conv_bn_func_list trl ! i = Some f \<and>
                      kernel_size (ConvBNLayer_conv f) = 3 \<and> conv_stride (ConvBNLayer_conv f) = 2 \<and>
                      conv_in_channels (ConvBNLayer_conv f) = last in_channels \<and>
                      conv_out_channels (ConvBNLayer_conv f) = out_channels ! i \<and>
                      (length x \<le> i \<longrightarrow> outs ! i = ConvBNLayer_forward f (last x)) \<and>
                      (i < length x \<longrightarrow> outs ! i = ConvBNLayer_forward f (x ! i)))))"
proof (intro conjI allI impI)
  assume "length x = length in_channels"
  with assms show "\<exists>outs. TransitionLayer_forward trl x = Inr outs"
    by (rule TransitionLayer_forward_ok)
next
  fix outs assume "TransitionLayer_forward trl x = Inr outs"
  from TransitionLayer_forward_returns [OF assms this]
  show "length outs = length out_channels"
    by simp
next
  fix outs i
  assume run: "TransitionLayer_forward trl x = Inr outs"
    and i: "i < length in_channels \<and> i < length out_channels \<and> in_channels ! i = out_channels ! i"
  note outs = TransitionLayer_forward_returns [OF assms run]
  from i show "conv_bn_func_list trl ! i = None"
    by (simp add: TransitionLayer_init_list(1) [OF assms] transition_func_def)
  from i show "outs ! i = x ! i"
    by (simp add: outs transition_out_def transition_func_def)
next
  fix outs i
  assume run: "TransitionLayer_forward trl x = Inr outs"
    and i: "length in_channels \<le> i \<and> i < length out_channels"
  note outs = TransitionLayer_forward_returns [OF assms run]
  let ?f = "ConvBNLayer_init (last in_channels) (out_channels ! i) 3 2 1 (Some ''relu'')"
  from i have "conv_bn_func_list trl ! i = Some ?f"
    by (simp add: TransitionLayer_init_list(1) [OF assms] transition_func_def)
  moreover have "kernel_size (ConvBNLayer_conv ?f) = 3" "conv_stride (ConvBNLayer_conv ?f) = 2"
    "conv_in_channels (ConvBNLayer_conv ?f) = last in_channels"
    "conv_out_channels (ConvBNLayer_conv ?f) = out_channels ! i"
    by (simp_all add: ConvBNLayer_init_def)
  moreover from i have "length x \<le> i \<longrightarrow> outs ! i = ConvBNLayer_forward ?f (last x)"
    "i < length x \<longrightarrow> outs ! i = ConvBNLayer_forward ?f (x ! i)"
    by (simp_all add: outs transition_out_def transition_func_def)
  ultimately show "\<exists>f. conv_bn_func_list trl ! i = Some f \<and>
                      kernel_size (ConvBNLayer_conv f) = 3 \<and> conv_stride (ConvBNLayer_conv f) = 2 \<and>
                      conv_in_channels (ConvBNLayer_conv f) = last in_channels \<and>
                      conv_out_channels (ConvBNLayer_conv f) = out_channels ! i \<and>
                      (length x \<le> i \<longrightarrow> outs ! i = ConvBNLayer_forward f (last x)) \<and>
                      (i < length x \<longrightarrow> outs ! i = ConvBNLayer_forward f (x ! i))"
    by blast
qed

lemma TransitionLayer_init_tr2:
  "TransitionLayer_init [18, 36] [18, 36, 72] (Some ''tr2'')
   = Inr \<lparr> conv_bn_func_list = [None, None, Some (ConvBNLayer_init 36 72 3 2 1 (Some ''relu''))] \<rparr>"
  by code_simp

theorem TransitionLayer_forward_branches_witness:
  "\<exists>trl outs. TransitionLayer_init [18, 36] [18, 36, 72] (Some ''tr2'') = Inr trl \<and>
     TransitionLayer_forward trl [Input 0 18, Input 1 36] = Inr outs \<and> length outs = 3 \<and>
     conv_bn_func_list trl ! 0 = None \<and> outs ! 0 = Input 0 18 \<and>
     conv_bn_func_list trl ! 1 = None \<and> outs ! 1 = Input 1 36 \<and>
     outs ! 2 = ConvBNLayer_forward (ConvBNLayer_init 36 72 3 2 1 (Some ''relu'')) (Input 1 36)"
proof -
  let ?x = "[Input 0 18, Input 1 36]"
  let ?trl = "\<lparr> conv_bn_func_list = [None, None, Some (ConvBNLayer_init 36 72 3 2 1 (Some ''relu''))] \<rparr>"
  note th = TransitionLayer_forward_branches [OF TransitionLayer_init_tr2, of ?x]
  have len: "length ?x = length [18, 36 :: int]"
    by simp
  from th len obtain outs where run: "TransitionLayer_forward ?trl ?x = Inr outs"
    by blast
  from th run have n: "length outs = length [18, 36, 72 :: int]"
    and kept: "\<forall>i. i < length [18, 36 :: int] \<and> i < length [18, 36, 72 :: int]
                 \<and> [18, 36 :: int] ! i = [18, 36, 72] ! i
               \<longrightarrow> conv_bn_func_list ?trl ! i = None \<and> outs ! i = ?x ! i"
    and new: "\<forall>i. length [18, 36 :: int] \<le> i \<and> i < length [18, 36, 72 :: int]
               \<longrightarrow> (\<exists>f. conv_bn_func_list ?trl ! i = Some f \<and>
                     kernel_size (ConvBNLayer_conv f) = 3 \<and> conv_stride (ConvBNLayer_conv f) = 2 \<and>
                     conv_in_channels (ConvBNLayer_conv f) = last [18, 36] \<and>
                     conv_out_channels (ConvBNLayer_conv f) = [18, 36, 72] ! i \<and>
                     (length ?x \<le> i \<longrightarrow> outs ! i = ConvBNLayer_forward f (last ?x)) \<and>
                     (i < length ?x \<longrightarrow> outs ! i = ConvBNLayer_forward f (?x ! i)))"
    by blast+
  from kept [rule_format, of 0] have k0: "conv_bn_func_list ?trl ! 0 = None \<and> outs ! 0 = Input 0 18"
    by simp
  from kept [rule_format, of 1] have k1: "conv_bn_func_list ?trl ! 1 = None \<and> outs ! 1 = Input 1 36"
    by simp
  from new [rule_format, of 2]
  have k2: "outs ! 2 = ConvBNLayer_forward (ConvBNLayer_init 36 72 3 2 1 (Some ''relu'')) (Input 1 36)"
    by simp
  from n have "length outs = 3" by simp
  with TransitionLayer_init_tr2 run k0 k1 k2 show ?thesis
    by blast
qed

section \<open>SELayer, BottleneckBlock and BasicBlock\<close>

lemma channel_count_ConvBNLayer:
  "channel_count x = Some c \<Longrightarrow>
   channel_count (ConvBNLayer_forward (ConvBNLayer_init c f k s g a) x) = Some f"
  by (simp add: ConvBNLayer_forward_def ConvBNLayer_init_def)

lemma int_truediv_16: "0 < c \<Longrightarrow> int_truediv c 16 = Inr (c div 16)"
  by (simp add: int_truediv_def)

lemma stdv_of_eq_Inr: "stdv_of n = Inr s \<longleftrightarrow> 0 < n \<and> s = Uniform_stdv n"
  by (auto simp: stdv_of_def)

lemma name_add_eq_Inr: "name_add name suffix = Inr s \<longleftrightarrow> (\<exists>n. name = Some n \<and> s = n @ suffix)"
  by (auto simp: name_add_def split: option.splits)

lemma add_name_eq_Inr: "add_name prefix name = Inr s \<longleftrightarrow> (\<exists>n. name = Some n \<and> s = prefix @ n)"
  by (auto simp: add_name_def split: option.splits)

lemma SELayer_init_16:
  assumes "SELayer_init c f 16 name = Inr se"
  shows "16 \<le> c" and "pool2d_gap se = 1" and "in_features (se_squeeze se) = c"
    and "out_features (se_squeeze se) = c div 16"
    and "in_features (se_excitation se) = c div 16" and "out_features (se_excitation se) = f"
proof -
  from assms have c: "0 < c"
    by (auto simp: SELayer_init_def py_bind_eq_Inr stdv_of_eq_Inr)
  with assms have "0 < c div 16"
    by (auto simp: SELayer_init_def py_bind_eq_Inr stdv_of_eq_Inr int_truediv_16 Let_def)
  then show "16 \<le> c"
    by (simp add: pos_imp_zdiv_pos_iff)
  from assms c show "pool2d_gap se = 1" "in_features (se_squeeze se) = c"
    "out_features (se_squeeze se) = c div 16"
    "in_features (se_excitation se) = c div 16" "out_features (se_excitation se) = f"
    by (auto simp: SELayer_init_def py_bind_eq_Inr int_truediv_16 Let_def)
qed

lemma SELayer_init_ok:
  assumes "16 \<le> c"
  shows "\<exists>se. SELayer_init c f 16 (Some n) = Inr se"
proof -
  from assms have "0 < c div 16"
    by (simp add: pos_imp_zdiv_pos_iff)
  with assms show ?thesis
    by (simp add: SELayer_init_def int_truediv_16 stdv_of_def name_add_def Let_def)
qed

lemma channel_count_SELayer:
  assumes "SELayer_init c c 16 name = Inr se" and "channel_count x = Some c"
  shows "channel_count (SELayer_forward se x) = Some c"
  using assms(2) SELayer_init_16(2-6) [OF assms(1)]
  by (simp add: SELayer_forward_def)

lemma BottleneckBlock_init_fields:
  assumes "BottleneckBlock_init num_channels num_filters se_flag stride downsample name = Inr b"
  shows "bottleneck_has_se b = se_flag" and "bottleneck_downsample b = downsample"
    and "bottleneck_conv1 b = ConvBNLayer_init num_channels num_filters 1 1 1 (Some ''relu'')"
    and "bottleneck_conv2 b = ConvBNLayer_init num_filters num_filters 3 stride 1 (Some ''relu'')"
    and "bottleneck_conv3 b = ConvBNLayer_init num_filters (num_filters * 4) 1 1 1 None"
    and "bottleneck_conv_down b =
           (if downsample then Some (ConvBNLayer_init num_channels (num_filters * 4) 1 1 1 None)
            else None)"
    and "if se_flag
         then \<exists>fc se. add_name ''fc'' name = Inr fc \<and>
                SELayer_init (num_filters * 4) (num_filters * 4) 16 (Some fc) = Inr se \<and>
                bottleneck_se b = Some se
         else bottleneck_se b = None"
  using assms
  by (auto simp: BottleneckBlock_init_def Let_def py_bind_eq_Inr split: if_splits)

lemma BasicBlock_init_fields:
  assumes "BasicBlock_init num_channels num_filters stride se_flag downsample name = Inr b"
  shows "basic_has_se b = se_flag" and "basic_downsample b = downsample"
    and "basic_conv1 b = ConvBNLayer_init num_channels num_filters 3 stride 1 (Some ''relu'')"
    and "basic_conv2 b = ConvBNLayer_init num_filters num_filters 3 1 1 None"
    and "basic_conv_down b =
           (if downsample then Some (ConvBNLayer_init num_channels (num_filters * 4) 1 1 1 (Some ''relu''))
            else None)"
    and "if se_flag
         then \<exists>fc se. add_name ''fc'' name = Inr fc \<and>
                SELayer_init num_filters num_filters 16 (Some fc) = Inr se \<and>
                basic_se b = Some se
         else basic_se b = None"
  using assms
  by (auto simp: BasicBlock_init_def Let_def py_bind_eq_Inr split: if_splits)

lemma BottleneckBlock_init_ok:
  assumes "se_flag \<longrightarrow> 4 \<le> num_filters"
  shows "\<exists>b. BottleneckBlock_init num_channels num_filters se_flag stride downsample (Some n) = Inr b"
proof (cases se_flag)
  case True
  with assms have "16 \<le> num_filters * 4" by simp
  from SELayer_init_ok [OF this] obtain se where
    "SELayer_init (num_filters * 4) (num_filters * 4) 16 (Some (''fc'' @ n)) = Inr se"
    by blast
  with True show ?thesis
    by (simp add: BottleneckBlock_init_def add_name_def Let_def)
next
  case False
  then show ?thesis
    by (simp add: BottleneckBlock_init_def Let_def)
qed

lemma BasicBlock_init_ok:
  assumes "se_flag \<longrightarrow> 16 \<le> num_filters"
  shows "\<exists>b. BasicBlock_init num_channels num_filters stride se_flag downsample (Some n) = Inr b"
proof (cases se_flag)
  case True
  with assms have "16 \<le> num_filters" by simp
  from SELayer_init_ok [OF this] obtain se where
    "SELayer_init num_filters num_filters 16 (Some (''fc'' @ n)) = Inr se"
    by blast
  with True show ?thesis
    by (simp add: BasicBlock_init_def add_name_def Let_def)
next
  case False
  then show ?thesis
    by (simp add: BasicBlock_init_def Let_def)
qed

text \<open>
  C4. In every constructed \<^verbatim>\<open>BottleneckBlock\<close> the third convolution has
  \<open>num_filters * 4\<close> output channels, and when \<^verbatim>\<open>downsample\<close> is set \<^verbatim>\<open>conv_down\<close>
  exists and has \<open>num_filters * 4\<close> output channels too. On an input with
  \<open>num_channels\<close> channels \<^verbatim>\<open>forward\<close> returns the ReLU of \<open>paddle.add(residual, conv3)\<close>
  where \<open>conv3\<close> (after the optional SE layer) has \<open>num_filters * 4\<close> channels and
  \<open>residual\<close> has \<open>num_filters * 4\<close> channels when \<^verbatim>\<open>downsample\<close> is set, so that the
  addition is over tensors of equal channel count; without \<^verbatim>\<open>downsample\<close> the residual is
  the input itself, and the counts are equal when \<open>num_channels = num_filters * 4\<close>.
\<close>

theorem BottleneckBlock_expansion:
  assumes "BottleneckBlock_init num_channels num_filters se_flag stride downsample name = Inr b"
    and "channel_count x = Some num_channels"
  shows "conv_out_channels (ConvBNLayer_conv (bottleneck_conv3 b)) = num_filters * 4 \<and>
         (downsample \<longrightarrow>
            (\<exists>conv_down. bottleneck_conv_down b = Some conv_down \<and>
               conv_out_channels (ConvBNLayer_conv conv_down) = num_filters * 4)) \<and>
         (\<exists>residual conv3.
            BottleneckBlock_forward b x = Inr (F_relu (paddle_add residual conv3)) \<and>
            channel_count conv3 = Some (num_filters * 4) \<and>
            channel_count residual = Some (if downsample then num_filters * 4 else num_channels) \<and>
            (downsample \<or> num_channels = num_filters * 4
               \<longrightarrow> channel_count residual = channel_count conv3) \<and>
            (\<not> downsample \<longrightarrow> residual = x))"
proof -
  note f = BottleneckBlock_init_fields [OF assms(1)]
  let ?c1 = "ConvBNLayer_forward (bottleneck_conv1 b) x"
  let ?c2 = "ConvBNLayer_forward (bottleneck_conv2 b) ?c1"
  let ?c3 = "ConvBNLayer_forward (bottleneck_conv3 b) ?c2"
  let ?res = "if downsample
              then ConvBNLayer_forward (ConvBNLayer_init num_channels (num_filters * 4) 1 1 1 None) x
              else x"
  have c3: "channel_count ?c3 = Some (num_filters * 4)"
    unfolding f(3-5) using assms(2) by (intro channel_count_ConvBNLayer)
  have res: "channel_count ?res = Some (if downsample then num_filters * 4 else num_channels)"
    using assms(2) by (simp add: channel_count_ConvBNLayer)
  have first: "conv_out_channels (ConvBNLayer_conv (bottleneck_conv3 b)) = num_filters * 4"
    by (simp add: f(5) ConvBNLayer_init_def)
  have second: "downsample \<longrightarrow>
            (\<exists>conv_down. bottleneck_conv_down b = Some conv_down \<and>
               conv_out_channels (ConvBNLayer_conv conv_down) = num_filters * 4)"
    by (simp add: f(6) ConvBNLayer_init_def)
  show ?thesis
  proof (cases se_flag)
    case False
    then have "BottleneckBlock_forward b x = Inr (F_relu (paddle_add ?res ?c3))"
      by (simp add: BottleneckBlock_forward_def Let_def f(1,2,6))
    with c3 res first second show ?thesis
      by (intro conjI exI [of _ ?res] exI [of _ ?c3]) simp_all
  next
    case True
    with f(7) obtain fc se where
      se: "SELayer_init (num_filters * 4) (num_filters * 4) 16 (Some fc) = Inr se"
      and b: "bottleneck_se b = Some se"
      by auto
    from True b have "BottleneckBlock_forward b x = Inr (F_relu (paddle_add ?res (SELayer_forward se ?c3)))"
      by (simp add: BottleneckBlock_forward_def Let_def f(1,2,6))
    moreover have "channel_count (SELayer_forward se ?c3) = Some (num_filters * 4)"
      using se c3 by (rule channel_count_SELayer)
    ultimately show ?thesis
      using res first second
      by (intro conjI exI [of _ ?res] exI [of _ "SELayer_forward se ?c3"]) simp_all
  qed
qed

theorem BottleneckBlock_expansion_witness:
  "\<exists>b. BottleneckBlock_init 64 64 True 1 True (Some ''layer2_1'') = Inr b \<and>
     conv_out_channels (ConvBNLayer_conv (bottleneck_conv3 b)) = 256 \<and>
     (\<exists>conv_down. bottleneck_conv_down b = Some conv_down \<and>
        conv_out_channels (ConvBNLayer_conv conv_down) = 256) \<and>
     (\<exists>residual conv3.
        BottleneckBlock_forward b (Input 0 64) = Inr (F_relu (paddle_add residual conv3)) \<and>
        channel_count conv3 = Some 256 \<and> channel_count residual = Some 256)"
proof -
  have "True \<longrightarrow> (4::int) \<le> 64"
    by simp
  from BottleneckBlock_init_ok [OF this] obtain b where
    b: "BottleneckBlock_init 64 64 True 1 True (Some ''layer2_1'') = Inr b"
    by blast
  have x: "channel_count (Input 0 64) = Some 64"
    by simp
  from BottleneckBlock_expansion [OF b x] b show ?thesis
    by auto
qed

text \<open>
  C5. \<^verbatim>\<open>BottleneckBlock\<close> and \<^verbatim>\<open>BasicBlock\<close>, the two places that create an
  \<^verbatim>\<open>SELayer\<close>, create it exactly when \<^verbatim>\<open>has_se\<close> is true, with reduction ratio 16 and
  equal \<open>num_channels\<close> and \<open>num_filters\<close> (\<open>num_filters * 4\<close> of the bottleneck block,
  \<open>num_filters\<close> of the basic block); its squeeze layer maps that many features to the
  floor of a sixteenth of them.
\<close>

theorem SELayer_reduction_ratio_16:
  assumes "BottleneckBlock_init num_channels num_filters se_flag stride downsample name = Inr bottleneck"
    and "BasicBlock_init num_channels' num_filters' stride' se_flag' downsample' name' = Inr basic"
  shows "(if se_flag
          then \<exists>fc se. SELayer_init (num_filters * 4) (num_filters * 4) 16 (Some fc) = Inr se \<and>
                 bottleneck_se bottleneck = Some se \<and>
                 in_features (se_squeeze se) = num_filters * 4 \<and>
                 out_features (se_squeeze se) = (num_filters * 4) div 16
          else bottleneck_se bottleneck = None) \<and>
         (if se_flag'
          then \<exists>fc se. SELayer_init num_filters' num_filters' 16 (Some fc) = Inr se \<and>
                 basic_se basic = Some se \<and>
                 in_features (se_squeeze se) = num_filters' \<and>
                 out_features (se_squeeze se) = num_filters' div 16
          else basic_se basic = None)"
proof
  show "if se_flag
          then \<exists>fc se. SELayer_init (num_filters * 4) (num_filters * 4) 16 (Some fc) = Inr se \<and>
                 bottleneck_se bottleneck = Some se \<and>
                 in_features (se_squeeze se) = num_filters * 4 \<and>
                 out_features (se_squeeze se) = (num_filters * 4) div 16
          else bottleneck_se bottleneck = None"
  proof (cases se_flag)
    case True
    with BottleneckBlock_init_fields(7) [OF assms(1)] obtain fc se where
      se: "SELayer_init (num_filters * 4) (num_filters * 4) 16 (Some fc) = Inr se"
      and "bottleneck_se bottleneck = Some se"
      by auto
    with True SELayer_init_16(3,4) [OF se] show ?thesis
      by auto
  next
    case False
    with BottleneckBlock_init_fields(7) [OF assms(1)] show ?thesis
      by simp
  qed
  show "if se_flag'
          then \<exists>fc se. SELayer_init num_filters' num_filters' 16 (Some fc) = Inr se \<and>
                 basic_se basic = Some se \<and>
                 in_features (se_squeeze se) = num_filters' \<and>
                 out_features (se_squeeze se) = num_filters' div 16
          else basic_se basic = None"
  proof (cases se_flag')
    case True
    with BasicBlock_init_fields(6) [OF assms(2)] obtain fc se where
      se: "SELayer_init num_filters' num_filters' 16 (Some fc) = Inr se"
      and "basic_se basic = Some se"
      by auto
    with True SELayer_init_16(3,4) [OF se] show ?thesis
      by auto
  next
    case False
    with BasicBlock_init_fields(6) [OF assms(2)] show ?thesis
      by simp
  qed
qed

theorem SELayer_reduction_ratio_16_witness:
  "\<exists>bottleneck basic se se'.
     BottleneckBlock_init 18 32 True 1 True (Some ''cls_headconv_1'') = Inr bottleneck \<and>
     BasicBlock_init 18 18 1 True False (Some ''st2_1_branch_layer_1_1'') = Inr basic \<and>
     bottleneck_se bottleneck = Some se \<and>
     in_features (se_squeeze se) = 128 \<and> out_features (se_squeeze se) = 8 \<and>
     basic_se basic = Some se' \<and>
     in_features (se_squeeze se') = 18 \<and> out_features (se_squeeze se') = 1"
proof -
  have "True \<longrightarrow> (4::int) \<le> 32"
    by simp
  from BottleneckBlock_init_ok [OF this] obtain bottleneck where
    b1: "BottleneckBlock_init 18 32 True 1 True (Some ''cls_headconv_1'') = Inr bottleneck"
    by blast
  have "True \<longrightarrow> (16::int) \<le> 18"
    by simp
  from BasicBlock_init_ok [OF this] obtain basic where
    b2: "BasicBlock_init 18 18 1 True False (Some ''st2_1_branch_layer_1_1'') = Inr basic"
    by blast
  from SELayer_reduction_ratio_16 [OF b1 b2] b1 b2 show ?thesis
    by auto
qed

section \<open>Branches, Stage and HRNet\<close>

text \<open>Invariants of a loop over \<open>[0..<n]\<close>: of a loop that has returned, and of a loop whose
  every turn returns.\<close>

lemma for_loop_upt_invariant:
  assumes "for_loop [0..<n] body s = Inr s'" and "I 0 s"
    and "\<And>k t t'. k < n \<Longrightarrow> I k t \<Longrightarrow> body k t = Inr t' \<Longrightarrow> I (Suc k) t'"
  shows "I n s'"
  using assms
proof (induction n arbitrary: s')
  case 0
  then show ?case by simp
next
  case (Suc n)
  from Suc.prems(1) obtain t where
    before: "for_loop [0..<n] body s = Inr t" and last: "body n t = Inr s'"
    by (auto simp: for_loop_snoc py_bind_eq_Inr)
  have "I n t"
    using before Suc.prems(2) by (rule Suc.IH) (simp add: Suc.prems(3))
  with last show ?case
    by (intro Suc.prems(3) [of n t s']) simp_all
qed

lemma for_loop_upt_total:
  assumes "I 0 s"
    and "\<And>k t. k < n \<Longrightarrow> I k t \<Longrightarrow> \<exists>t'. body k t = Inr t' \<and> I (Suc k) t'"
  shows "\<exists>s'. for_loop [0..<n] body s = Inr s' \<and> I n s'"
  using assms
proof (induction n)
  case 0
  then show ?case by simp
next
  case (Suc n)
  have "\<exists>t. for_loop [0..<n] body s = Inr t \<and> I n t"
    using Suc.prems(1) by (rule Suc.IH) (simp add: Suc.prems(2))
  then obtain t where before: "for_loop [0..<n] body s = Inr t" and "I n t"
    by blast
  with Suc.prems(2) [of n t] obtain t' where "body n t = Inr t'" "I (Suc n) t'"
    by auto
  with before show ?case
    by (simp add: for_loop_snoc)
qed




lemma Branches_init_j_row:
  assumes "Branches_init_j in_channels out_channels se_flag name i j lst = Inr lst'"
  shows "i < length lst" and "length lst' = length lst"
    and "\<exists>b. lst' = lst[i := lst ! i @ [b]] \<and> branch_block in_channels out_channels se_flag i b"
  using assms
  by (auto simp: Branches_init_j_def branch_block_def py_bind_eq_Inr getitem_eq_Inr)

lemma Branches_init_i_row:
  assumes "Branches_init_i block_num in_channels out_channels se_flag name (length lst) lst = Inr lst'"
  shows "\<exists>row. lst' = lst @ [row] \<and> length row = nat block_num \<and>
           (\<forall>b \<in> set row. branch_block in_channels out_channels se_flag (length lst) b)"
proof -
  let ?I = "\<lambda>m l. \<exists>row. l = lst @ [row] \<and> length row = m \<and>
              (\<forall>b \<in> set row. branch_block in_channels out_channels se_flag (length lst) b)"
  from assms have loop: "for_loop [0..<nat block_num]
      (Branches_init_j in_channels out_channels se_flag name (length lst)) (lst @ [[]]) = Inr lst'"
    by (simp add: Branches_init_i_def py_range_def)
  from loop show ?thesis
  proof (rule for_loop_upt_invariant [where I = ?I])
    show "?I 0 (lst @ [[]])"
      by simp
  next
    fix k t t'
    assume "?I k t"
      and step: "Branches_init_j in_channels out_channels se_flag name (length lst) k t = Inr t'"
    then obtain row where t: "t = lst @ [row]" and row: "length row = k"
      "\<forall>b \<in> set row. branch_block in_channels out_channels se_flag (length lst) b"
      by blast
    from Branches_init_j_row(3) [OF step] obtain b where
      "t' = t[length lst := t ! length lst @ [b]]"
      and b: "branch_block in_channels out_channels se_flag (length lst) b"
      by blast
    then have "t' = lst @ [row @ [b]]"
      by (simp add: t)
    with row b show "?I (Suc k) t'"
      by auto
  qed
qed

lemma Branches_init_rows:
  assumes "Branches_init block_num in_channels out_channels se_flag name = Inr br"
  shows "length (basic_block_list br) = length out_channels"
    and "\<And>i. i < length out_channels \<Longrightarrow> length (basic_block_list br ! i) = nat block_num"
    and "\<And>i b. i < length out_channels \<Longrightarrow> b \<in> set (basic_block_list br ! i) \<Longrightarrow>
           branch_block in_channels out_channels se_flag i b"
proof -
  let ?I = "\<lambda>k l. length l = k \<and> (\<forall>i < k. length (l ! i) = nat block_num \<and>
              (\<forall>b \<in> set (l ! i). branch_block in_channels out_channels se_flag i b))"
  from assms obtain lst where
    loop: "for_loop [0..<length out_channels]
             (Branches_init_i block_num in_channels out_channels se_flag name) [] = Inr lst"
    and br: "basic_block_list br = lst"
    by (auto simp: Branches_init_def py_bind_eq_Inr)
  from loop have "?I (length out_channels) lst"
  proof (rule for_loop_upt_invariant [where I = ?I])
    show "?I 0 []"
      by simp
  next
    fix k t t'
    assume inv: "?I k t"
      and step: "Branches_init_i block_num in_channels out_channels se_flag name k t = Inr t'"
    from inv have len: "length t = k" by simp
    from Branches_init_i_row [of block_num in_channels out_channels se_flag name t t', unfolded len, OF step]
    obtain row where
      t': "t' = t @ [row]" and row: "length row = nat block_num"
      "\<forall>b \<in> set row. branch_block in_channels out_channels se_flag k b"
      by blast
    show "?I (Suc k) t'"
    proof (intro conjI allI impI)
      show "length t' = Suc k"
        using len by (simp add: t')
    next
      fix i assume "i < Suc k"
      then show "length (t' ! i) = nat block_num"
        using inv row by (cases "i = k") (simp_all add: t' nth_append)
    next
      fix i assume "i < Suc k"
      then show "\<forall>b \<in> set (t' ! i). branch_block in_channels out_channels se_flag i b"
        using inv row by (cases "i = k") (simp_all add: t' nth_append)
    qed
  qed
  then show "length (basic_block_list br) = length out_channels"
    and "\<And>i. i < length out_channels \<Longrightarrow> length (basic_block_list br ! i) = nat block_num"
    and "\<And>i b. i < length out_channels \<Longrightarrow> b \<in> set (basic_block_list br ! i) \<Longrightarrow>
           branch_block in_channels out_channels se_flag i b"
    by (simp_all add: br)
qed




lemma Branches_init_j_ok:
  assumes "i < length out_channels" and "length out_channels \<le> length in_channels"
    and "length t = Suc i" and "se_flag \<longrightarrow> 16 \<le> out_channels ! i"
  shows "\<exists>t'. Branches_init_j in_channels out_channels se_flag (Some n) i j t = Inr t'
           \<and> length t' = Suc i"
proof -
  let ?in_ch = "if j = 0 then in_channels ! i else out_channels ! i"
  let ?name = "n @ ''_branch_layer_'' @ str (i + 1) @ ''_'' @ str (j + 1)"
  from BasicBlock_init_ok [OF assms(4)] obtain b where
    b: "BasicBlock_init ?in_ch (out_channels ! i) 1 se_flag False (Some ?name) = Inr b"
    by blast
  have nm: "name_add (Some n) (''_branch_layer_'' @ str (i + 1) @ ''_'' @ str (j + 1)) = Inr ?name"
    by (simp add: name_add_def)
  have lt: "i < length in_channels" "i < length t"
    using assms(1-3) by simp_all
  have "Branches_init_j in_channels out_channels se_flag (Some n) i j t = Inr (t[i := t ! i @ [b]])"
  proof (cases "j = 0")
    case True
    with b have "BasicBlock_init (in_channels ! i) (out_channels ! i) 1 se_flag False (Some ?name) = Inr b"
      by simp
    with True show ?thesis
      by (simp add: Branches_init_j_def getitem_in_range lt assms(1) name_add_def)
  next
    case False
    with b have "BasicBlock_init (out_channels ! i) (out_channels ! i) 1 se_flag False (Some ?name) = Inr b"
      by simp
    with False show ?thesis
      by (simp add: Branches_init_j_def getitem_in_range lt assms(1) name_add_def)
  qed
  then show ?thesis
    using assms(3) by simp
qed

lemma Branches_init_ok:
  assumes "length out_channels \<le> length in_channels"
    and "se_flag \<longrightarrow> (\<forall>c \<in> set out_channels. 16 \<le> c)"
  shows "\<exists>br. Branches_init block_num in_channels out_channels se_flag (Some n) = Inr br"
proof -
  have row: "\<exists>t'. Branches_init_i block_num in_channels out_channels se_flag (Some n) i t = Inr t'
               \<and> length t' = Suc i"
    if i: "i < length out_channels" and t: "length t = i" for i t
    unfolding Branches_init_i_def py_range_def
  proof (rule for_loop_upt_total [where I = "\<lambda>m l. length l = Suc i"])
    show "length (t @ [[]]) = Suc i"
      using t by simp
  next
    fix k and l :: "BasicBlock list list" assume l: "length l = Suc i"
    from i assms(2) have "se_flag \<longrightarrow> 16 \<le> out_channels ! i"
      by simp
    with i assms(1) l
    show "\<exists>t'. Branches_init_j in_channels out_channels se_flag (Some n) i k l = Inr t'
             \<and> length t' = Suc i"
      by (rule Branches_init_j_ok)
  qed
  have "\<exists>lst. for_loop [0..<length out_channels]
          (Branches_init_i block_num in_channels out_channels se_flag (Some n)) [] = Inr lst
        \<and> length lst = length out_channels"
  proof (rule for_loop_upt_total [where I = "\<lambda>k l. length l = k"])
    show "length ([] :: BasicBlock list list) = 0"
      by simp
  next
    fix k and t :: "BasicBlock list list" assume "k < length out_channels" "length t = k"
    then show "\<exists>t'. Branches_init_i block_num in_channels out_channels se_flag (Some n) k t = Inr t'
             \<and> length t' = Suc k"
      by (rule row)
  qed
  then show ?thesis
    by (auto simp: Branches_init_def)
qed



lemma TransitionLayer_init_ok:
  assumes "in_channels \<noteq> []"
  shows "\<exists>trl. TransitionLayer_init in_channels out_channels name = Inr trl"
proof -
  have "\<exists>lst. for_loop [0..<length out_channels] (TransitionLayer_init_i in_channels out_channels) []
          = Inr lst \<and> True"
    by (rule for_loop_upt_total)
      (simp_all add: TransitionLayer_init_i_def getitem_in_range getitem_last_def assms)
  then show ?thesis
    by (auto simp: TransitionLayer_init_def)
qed

lemma LastClsOut_init_ok:
  assumes "length num_channel_list \<le> length num_filters_list"
    and "se_flag \<longrightarrow> (\<forall>f \<in> set num_filters_list. 4 \<le> f)"
  shows "\<exists>l. LastClsOut_init num_channel_list se_flag num_filters_list (Some n) = Inr l"
proof -
  have "\<exists>lst. for_loop [0..<length num_channel_list]
          (LastClsOut_init_idx num_channel_list se_flag num_filters_list (Some n)) [] = Inr lst \<and> True"
  proof (rule for_loop_upt_total)
    show True ..
  next
    fix k t assume k: "k < length num_channel_list"
    with assms have "se_flag \<longrightarrow> 4 \<le> num_filters_list ! k"
      by simp
    from BottleneckBlock_init_ok [OF this] obtain b where
      "BottleneckBlock_init (num_channel_list ! k) (num_filters_list ! k) se_flag 1 True
         (Some ((n @ ''conv_'') @ str (k + 1))) = Inr b"
      by blast
    with k assms(1) show "\<exists>t'. LastClsOut_init_idx num_channel_list se_flag num_filters_list
                  (Some n) k t = Inr t' \<and> True"
      by (simp add: LastClsOut_init_idx_def name_add_def getitem_in_range)
  qed
  then show ?thesis
    by (auto simp: LastClsOut_init_def)
qed

lemma HRNet_stage_channels_table:
  "HRNet_stage_channels HRNet_channels w =
     (if w \<in> HRNet_widths then Inr ([w, 2 * w], [w, 2 * w, 4 * w], [w, 2 * w, 4 * w, 8 * w])
      else Inl KeyError)"
  by (simp add: HRNet_stage_channels_def HRNet_channels_def HRNet_widths_def)






lemma nonempty_member: "xs \<noteq> [] \<Longrightarrow> \<exists>x. x \<in> set xs"
  by (cases xs) auto

lemma concat_member:
  assumes "row \<in> set rows" and "row \<noteq> []"
  shows "\<exists>b. b \<in> set (concat rows)"
proof -
  from nonempty_member [OF assms(2)] obtain b where "b \<in> set row" ..
  with assms(1) have "b \<in> set (concat rows)"
    by auto
  then show ?thesis ..
qed

lemma branch_block_plain:
  assumes "branch_block in_channels out_channels se_flag i b"
  shows "\<not> basic_downsample b" and "basic_conv_down b = None"
    and "\<exists>conv2. BasicBlock_forward b x = Inr (F_relu (paddle_add x conv2))"
    and "conv_out_channels (ConvBNLayer_conv (basic_conv2 b)) = out_channels ! i"
proof -
  from assms obtain in_ch block_name where
    b: "BasicBlock_init in_ch (out_channels ! i) 1 se_flag False (Some block_name) = Inr b"
    by (auto simp: branch_block_def)
  note f = BasicBlock_init_fields [OF b]
  from f(2) show "\<not> basic_downsample b"
    by simp
  from f(5) show "basic_conv_down b = None"
    by simp
  from f(4) show "conv_out_channels (ConvBNLayer_conv (basic_conv2 b)) = out_channels ! i"
    by (simp add: ConvBNLayer_init_def)
  show "\<exists>conv2. BasicBlock_forward b x = Inr (F_relu (paddle_add x conv2))"
  proof (cases se_flag)
    case True
    with f(6) obtain se where "basic_se b = Some se"
      by auto
    with True f(1,2) show ?thesis
      by (simp add: BasicBlock_forward_def Let_def)
  next
    case False
    with f(1,2) show ?thesis
      by (simp add: BasicBlock_forward_def Let_def)
  qed
qed

lemma Branches_blocks:
  assumes "Branches_init block_num in_channels out_channels se_flag name = Inr br"
    and "b \<in> set (concat (basic_block_list br))"
  shows "\<exists>i. branch_block in_channels out_channels se_flag i b"
proof -
  note rows = Branches_init_rows [OF assms(1)]
  from assms(2) obtain row where "row \<in> set (basic_block_list br)" and b: "b \<in> set row"
    by auto
  then obtain i where "i < length (basic_block_list br)" and "row = basic_block_list br ! i"
    by (auto simp: in_set_conv_nth)
  with rows(1) rows(3) [of i b] b show ?thesis
    by auto
qed

lemma HRNet_channels_dom: "dom (map_of HRNet_channels) = {18, 30, 32, 40, 44, 48, 60, 64}"
  by (simp add: HRNet_channels_def dom_map_of_conv_image_fst)

lemma HRNet_init_KeyError:
  assumes "w \<notin> {18, 30, 32, 40, 44, 48, 60, 64}"
  shows "HRNet_init w se cd = Inl KeyError"
  using assms by (simp add: HRNet_init_def HRNet_stage_channels_table HRNet_widths_def)

lemma update_not_Nil: "AList.update k v al \<noteq> []"
  by (cases al) simp_all

lemma Layer1_init_raises: "Layer1_init num_channels se_flag (Some n) = Inl AssertionError"
proof -
  have "\<exists>d. for_loop [0..<4] (Layer1_init_i num_channels se_flag (Some n)) [] = Inr d
          \<and> (0 < (4::nat) \<longrightarrow> d \<noteq> [])"
  proof (rule for_loop_upt_total [where I = "\<lambda>k d. 0 < k \<longrightarrow> d \<noteq> []"])
    show "0 < (0::nat) \<longrightarrow> ([] :: (string \<times> BottleneckBlock) list) \<noteq> []"
      by simp
  next
    fix k and t :: "(string \<times> BottleneckBlock) list"
    have "se_flag \<longrightarrow> (4::int) \<le> 64"
      by simp
    from BottleneckBlock_init_ok [OF this] obtain b where
      "BottleneckBlock_init (if k = 0 then num_channels else 256) 64 se_flag 1
         (if k = 0 then True else False) (Some (n @ ''_'' @ str (k + 1))) = Inr b"
      by blast
    then show "\<exists>t'. Layer1_init_i num_channels se_flag (Some n) k t = Inr t'
                 \<and> (0 < Suc k \<longrightarrow> t' \<noteq> [])"
      by (simp add: Layer1_init_i_def name_add_def Let_def update_not_Nil)
  qed
  then obtain d where "for_loop [0..<4] (Layer1_init_i num_channels se_flag (Some n)) [] = Inr d"
    and "d \<noteq> []"
    by auto
  then show ?thesis
    by (simp add: Layer1_init_def py_range_def nn_Sequential_def)
qed

lemma HRNet_init_raises:
  "HRNet_init w se cd = Inl (if w \<in> HRNet_widths then AssertionError else KeyError)"
  by (simp add: HRNet_init_def HRNet_stage_channels_table Layer1_init_raises Let_def)

lemma HRNet_call_raises:
  assumes "w \<in> HRNet_widths"
  shows "HRNet_call (Some w) se \<lparr> kw_width = None, kw_has_se = None, kw_class_dim = None \<rparr>
         = Inl AssertionError"
  using assms by (simp add: HRNet_call_def HRNet_init_raises)

text \<open>
  C2. The channels table has exactly the eight keys 18, 30, 32, 40, 44, 48, 60 and 64, and
  its entry for a width \<open>w\<close> is \<open>[w, 2w]\<close>, \<open>[w, 2w, 4w]\<close>, \<open>[w, 2w, 4w, 8w]\<close>. No variant
  builds a network from it: \<^verbatim>\<open>HRNet.__init__\<close> constructs \<^verbatim>\<open>Layer1\<close> before its stages, and
  \<^verbatim>\<open>Layer1\<close> hands the keys of a dictionary, four strings, to \<^verbatim>\<open>nn.Sequential\<close>, so that each
  of the sixteen variants, called without arguments, raises \<^verbatim>\<open>AssertionError\<close>.
\<close>

theorem HRNet_variants_raise:
  "dom (map_of HRNet_channels) = {18, 30, 32, 40, 44, 48, 60, 64} \<and>
   map (HRNet_stage_channels HRNet_channels) [18, 30, 32, 40, 44, 48, 60, 64]
     = map (\<lambda>w. Inr ([w, 2 * w], [w, 2 * w, 4 * w], [w, 2 * w, 4 * w, 8 * w]))
         [18, 30, 32, 40, 44, 48, 60, 64] \<and>
   map (\<lambda>variant. variant \<lparr> kw_width = None, kw_has_se = None, kw_class_dim = None \<rparr>)
     [HRNet_W18_C, HRNet_W30_C, HRNet_W32_C, HRNet_W40_C,
      HRNet_W44_C, HRNet_W48_C, HRNet_W60_C, HRNet_W64_C,
      SE_HRNet_W18_C, SE_HRNet_W30_C, SE_HRNet_W32_C, SE_HRNet_W40_C,
      SE_HRNet_W44_C, SE_HRNet_W48_C, SE_HRNet_W60_C, SE_HRNet_W64_C]
     = replicate 16 (Inl AssertionError)"
proof (intro conjI)
  show "dom (map_of HRNet_channels) = {18, 30, 32, 40, 44, 48, 60, 64}"
    by (rule HRNet_channels_dom)
  show "map (HRNet_stage_channels HRNet_channels) [18, 30, 32, 40, 44, 48, 60, 64]
     = map (\<lambda>w. Inr ([w, 2 * w], [w, 2 * w, 4 * w], [w, 2 * w, 4 * w, 8 * w]))
         [18, 30, 32, 40, 44, 48, 60, 64]"
    by (simp add: HRNet_stage_channels_table HRNet_widths_def)
  have w: "18 \<in> HRNet_widths" "30 \<in> HRNet_widths" "32 \<in> HRNet_widths" "40 \<in> HRNet_widths"
    "44 \<in> HRNet_widths" "48 \<in> HRNet_widths" "60 \<in> HRNet_widths" "64 \<in> HRNet_widths"
    by (simp_all add: HRNet_widths_def)
  have r16: "replicate 16 x = [x, x, x, x, x, x, x, x, x, x, x, x, x, x, x, x]" for x :: "py_error + HRNet"
    by (simp add: numeral_eq_Suc)
  show "map (\<lambda>variant. variant \<lparr> kw_width = None, kw_has_se = None, kw_class_dim = None \<rparr>)
     [HRNet_W18_C, HRNet_W30_C, HRNet_W32_C, HRNet_W40_C,
      HRNet_W44_C, HRNet_W48_C, HRNet_W60_C, HRNet_W64_C,
      SE_HRNet_W18_C, SE_HRNet_W30_C, SE_HRNet_W32_C, SE_HRNet_W40_C,
      SE_HRNet_W44_C, SE_HRNet_W48_C, SE_HRNet_W60_C, SE_HRNet_W64_C]
     = replicate 16 (Inl AssertionError)"
    unfolding r16
    by (simp add: HRNet_W18_C_def HRNet_W30_C_def HRNet_W32_C_def HRNet_W40_C_def HRNet_W44_C_def
      HRNet_W48_C_def HRNet_W60_C_def HRNet_W64_C_def SE_HRNet_W18_C_def SE_HRNet_W30_C_def
      SE_HRNet_W32_C_def SE_HRNet_W40_C_def SE_HRNet_W44_C_def SE_HRNet_W48_C_def
      SE_HRNet_W60_C_def SE_HRNet_W64_C_def w [THEN HRNet_call_raises])
qed

text \<open>
  C10. \<^verbatim>\<open>Branches\<close>, the only place that creates a \<^verbatim>\<open>BasicBlock\<close>, creates every block
  with \<^verbatim>\<open>downsample=False\<close>: a block of a built \<^verbatim>\<open>Branches\<close> has no \<^verbatim>\<open>conv_down\<close>
  sublayer, and its \<^verbatim>\<open>forward\<close> returns the ReLU of the sum of the unmodified block input
  and the convolution path.
\<close>

theorem BasicBlock_never_downsamples:
  assumes "Branches_init block_num in_channels out_channels se_flag name = Inr br"
    and "b \<in> set (concat (basic_block_list br))"
  shows "\<not> basic_downsample b \<and> basic_conv_down b = None \<and>
         (\<exists>conv2. BasicBlock_forward b x = Inr (F_relu (paddle_add x conv2)))"
proof -
  from Branches_blocks [OF assms] obtain i where
    bb: "branch_block in_channels out_channels se_flag i b"
    by blast
  from branch_block_plain(1,2) [OF bb] branch_block_plain(3) [OF bb, where x = x]
  show ?thesis
    by blast
qed

theorem BasicBlock_never_downsamples_witness:
  "\<exists>br b.
     Branches_init 4 [18, 36] [18, 36] True (Some ''st2_1'') = Inr br \<and>
     b \<in> set (concat (basic_block_list br)) \<and>
     \<not> basic_downsample b \<and> basic_conv_down b = None \<and>
     (\<exists>conv2. BasicBlock_forward b (Input 0 18) = Inr (F_relu (paddle_add (Input 0 18) conv2)))"
proof -
  have "\<exists>br. Branches_init 4 [18, 36] [18, 36] True (Some ''st2_1'') = Inr br"
    by (rule Branches_init_ok) simp_all
  then obtain br where br: "Branches_init 4 [18, 36] [18, 36] True (Some ''st2_1'') = Inr br" ..
  from Branches_init_rows(1) [OF br] Branches_init_rows(2) [OF br, of 0]
  have "basic_block_list br ! 0 \<in> set (basic_block_list br)" "basic_block_list br ! 0 \<noteq> []"
    by auto
  then have "\<exists>b. b \<in> set (concat (basic_block_list br))"
    by (rule concat_member)
  then obtain b where b: "b \<in> set (concat (basic_block_list br))" ..
  from BasicBlock_never_downsamples [OF br b, of "Input 0 18"] br b
  show ?thesis
    by blast
qed



end
